theory Spec2Isabelle
  imports Main "HOL-Library.Word" "HOL-Library.Sublist"
begin

section \<open>JavaScript strings\<close>

text \<open>
  A JavaScript string is a sequence of 16-bit UTF-16 code units; \<open>length\<close>,
  \<open>startsWith\<close>, \<open>split\<close>, \<open>substring\<close> and the regular expression of the
  processor all work on code units. \<open>js\<close> turns an ASCII literal into such a string.
\<close>

type_synonym code_unit = "16 word"
type_synonym jsstring = "code_unit list"

definition js :: "string \<Rightarrow> jsstring" where
  "js s = map (\<lambda>c. of_nat (of_char c)) s"

abbreviation SLASH :: code_unit where "SLASH \<equiv> 0x2F"
abbreviation DASH :: code_unit where "DASH \<equiv> 0x2D"
abbreviation PLUS :: code_unit where "PLUS \<equiv> 0x2B"
abbreviation SPACE :: code_unit where "SPACE \<equiv> 0x20"
abbreviation PERCENT :: code_unit where "PERCENT \<equiv> 0x25"
abbreviation COLON :: code_unit where "COLON \<equiv> 0x3A"
abbreviation PERIOD :: code_unit where "PERIOD \<equiv> 0x2E"
abbreviation LETTER_T :: code_unit where "LETTER_T \<equiv> 0x54"
abbreviation LETTER_Z :: code_unit where "LETTER_Z \<equiv> 0x5A"

text \<open>\<open>s.startsWith(p)\<close>.\<close>

fun startsWith :: "jsstring \<Rightarrow> jsstring \<Rightarrow> bool" where
  "startsWith s [] = True"
| "startsWith [] (p # ps) = False"
| "startsWith (c # cs) (p # ps) = (c = p \<and> startsWith cs ps)"

text \<open>
  \<open>s.split(sep)\<close> for a separator of one code unit: the result is never empty, and
  the empty string splits into one empty segment.
\<close>

fun split :: "code_unit \<Rightarrow> jsstring \<Rightarrow> jsstring list" where
  "split sep [] = [[]]"
| "split sep (c # cs) =
     (if c = sep then [] # split sep cs
      else (case split sep cs of
              [] \<Rightarrow> [[c]]
            | seg # segs \<Rightarrow> (c # seg) # segs))"

text \<open>\<open>parts.join(sep)\<close> for a separator of one code unit.\<close>

fun join :: "code_unit \<Rightarrow> jsstring list \<Rightarrow> jsstring" where
  "join sep [] = []"
| "join sep [seg] = seg"
| "join sep (seg # segs) = seg @ sep # join sep segs"

text \<open>
  \<open>parts.pop()\<close> gives the last element, or \<open>undefined\<close> on an empty array;
  \<open>v || d\<close> replaces \<open>undefined\<close> and the empty string (both falsy) by \<open>d\<close>.
\<close>

definition pop :: "jsstring list \<Rightarrow> jsstring option" where
  "pop parts = (if parts = [] then None else Some (last parts))"

definition or_else :: "jsstring option \<Rightarrow> jsstring \<Rightarrow> jsstring" where
  "or_else v d = (case v of None \<Rightarrow> d | Some s \<Rightarrow> if s = [] then d else s)"

text \<open>
  \<open>parts[parts.length - 1]\<close> inside a template literal: an index out of range reads
  \<open>undefined\<close>, which the template prints as the text "undefined".
\<close>

definition last_element :: "jsstring list \<Rightarrow> jsstring" where
  "last_element parts = (if parts = [] then js ''undefined'' else last parts)"

text \<open>\<open>s.substring(n)\<close> for \<open>n \<ge> 0\<close>: the rest from index \<open>n\<close>, empty beyond the end.\<close>

definition substring :: "jsstring \<Rightarrow> nat \<Rightarrow> jsstring" where
  "substring s n = drop n s"

text \<open>\<open>s.replace(/\+/g, ' ')\<close>: every plus sign becomes a space.\<close>

definition replace_plus :: "jsstring \<Rightarrow> jsstring" where
  "replace_plus s = map (\<lambda>c. if c = PLUS then SPACE else c) s"

section \<open>The built-in decodeURIComponent\<close>

text \<open>
  \<open>decodeURIComponent\<close> is the platform's function, not code of the repository; it is
  modelled after the Decode operation of ECMA-262 with an empty set of preserved
  escapes. A percent sign must be followed by two hexadecimal digits; an octet below
  0x80 is a code unit of its own, an octet with two to four leading one bits starts a
  UTF-8 sequence whose other octets must be escapes too, and which must encode a code
  point validly (no overlong form, no surrogate, at most 0x10FFFF). Every other shape
  throws URIError, which is \<open>None\<close> here.
\<close>

definition hex_digit :: "code_unit \<Rightarrow> nat option" where
  "hex_digit c =
     (if 0x30 \<le> c \<and> c \<le> 0x39 then Some (unat c - 0x30)
      else if 0x41 \<le> c \<and> c \<le> 0x46 then Some (unat c - 0x41 + 10)
      else if 0x61 \<le> c \<and> c \<le> 0x66 then Some (unat c - 0x61 + 10)
      else None)"

definition ParseHexOctet :: "code_unit \<Rightarrow> code_unit \<Rightarrow> nat option" where
  "ParseHexOctet h l =
     (case hex_digit h of
        None \<Rightarrow> None
      | Some a \<Rightarrow> (case hex_digit l of None \<Rightarrow> None | Some b \<Rightarrow> Some (16 * a + b)))"

definition leading_ones :: "nat \<Rightarrow> nat" where
  "leading_ones B =
     (if B < 0x80 then 0 else if B < 0xC0 then 1 else if B < 0xE0 then 2
      else if B < 0xF0 then 3 else if B < 0xF8 then 4 else 5)"

text \<open>The \<open>j\<close> escapes that continue a UTF-8 sequence, and the rest of the string.\<close>

fun continuation_octets :: "nat \<Rightarrow> jsstring \<Rightarrow> (nat list \<times> jsstring) option" where
  "continuation_octets 0 s = Some ([], s)"
| "continuation_octets (Suc j) (p # h # l # s) =
     (if p = PERCENT then
        (case ParseHexOctet h l of
           None \<Rightarrow> None
         | Some b \<Rightarrow>
             (case continuation_octets j s of
                None \<Rightarrow> None
              | Some (bs, r) \<Rightarrow> Some (b # bs, r)))
      else None)"
| "continuation_octets (Suc j) s = None"

definition is_continuation :: "nat \<Rightarrow> bool" where
  "is_continuation b = (0x80 \<le> b \<and> b < 0xC0)"

text \<open>The code point of a UTF-8 sequence of two to four octets, when it is valid.\<close>

definition utf8_code_point :: "nat list \<Rightarrow> nat option" where
  "utf8_code_point octets =
     (case octets of
        [a, b] \<Rightarrow>
          (let V = (a - 0xC0) * 64 + (b - 0x80)
           in if is_continuation b \<and> 0x80 \<le> V then Some V else None)
      | [a, b, c] \<Rightarrow>
          (let V = (a - 0xE0) * 4096 + (b - 0x80) * 64 + (c - 0x80)
           in if is_continuation b \<and> is_continuation c \<and> 0x800 \<le> V
                 \<and> \<not> (0xD800 \<le> V \<and> V \<le> 0xDFFF)
              then Some V else None)
      | [a, b, c, d] \<Rightarrow>
          (let V = (a - 0xF0) * 262144 + (b - 0x80) * 4096 + (c - 0x80) * 64 + (d - 0x80)
           in if is_continuation b \<and> is_continuation c \<and> is_continuation d
                 \<and> 0x10000 \<le> V \<and> V \<le> 0x10FFFF
              then Some V else None)
      | _ \<Rightarrow> None)"

definition UTF16EncodeCodePoint :: "nat \<Rightarrow> jsstring" where
  "UTF16EncodeCodePoint V =
     (if V \<le> 0xFFFF then [of_nat V]
      else [of_nat (0xD800 + (V - 0x10000) div 1024),
            of_nat (0xDC00 + (V - 0x10000) mod 1024)])"

function decodeURIComponent :: "jsstring \<Rightarrow> jsstring option" where
  "decodeURIComponent [] = Some []"
| "decodeURIComponent (c # s) =
     (if c \<noteq> PERCENT then map_option ((#) c) (decodeURIComponent s)
      else
        (case s of
           h # l # s' \<Rightarrow>
             (case ParseHexOctet h l of
                None \<Rightarrow> None
              | Some B \<Rightarrow>
                  (if leading_ones B = 0 then
                     map_option ((#) (of_nat B)) (decodeURIComponent s')
                   else if leading_ones B = 1 \<or> 4 < leading_ones B then None
                   else
                     (case continuation_octets (leading_ones B - 1) s' of
                        None \<Rightarrow> None
                      | Some (octets, r) \<Rightarrow>
                          (case utf8_code_point (B # octets) of
                             None \<Rightarrow> None
                           | Some V \<Rightarrow>
                               map_option ((@) (UTF16EncodeCodePoint V))
                                 (decodeURIComponent r)))))
         | _ \<Rightarrow> None))"
  by pat_completeness auto
termination
proof (relation "measure length", goal_cases)
  have shorter: "length r \<le> length s" if "continuation_octets j s = Some (bs, r)"
    for j s bs r
    using that
  proof (induction j s arbitrary: bs r rule: continuation_octets.induct)
    case (2 j p h l s)
    then show ?case
      by (fastforce split: if_splits option.splits)
  qed simp_all
  {
    case 1
    show ?case by simp
  next
    case (2 c s)
    show ?case by simp
  next
    case 3
    then show ?case by simp
  next
    case 4
    then show ?case by (auto dest: shorter)
  }
qed

section \<open>The data model\<close>

text \<open>
  Modelled from the spec: the declarations of \<open>BucketSubdirectory\<close> and
  \<open>BucketConfig\<close> in \<open>context/IContext\<close> are not among the sources. The fields
  are those of a path rule in the specification (the intake path without a trailing
  slash, the retention days, the retention days of errors when present, the downstream
  target), under the names the processor and the tests use. \<open>name\<close> is optional in
  the source (\<open>this.config.name!\<close>).
\<close>

record BucketSubdirectory =
  path :: jsstring
  objectLifetimeDays :: int
  errorObjectLifetimeDays :: "int option"
  subscriberLambdaArn :: jsstring
  subscriberLambdaExecutionRoleArn :: jsstring

record BucketConfig =
  name :: "jsstring option"
  subdirectories :: "BucketSubdirectory list"

text \<open>
  \<open>IBucket\<close>, the storage port. \<open>renameObject\<close> and \<open>moveToErrors\<close> resolve to a
  boolean: the implementation \<open>Bucket\<close> wraps the copy and the delete in a
  \<open>try\<close>/\<open>catch\<close> and answers \<open>false\<close> on any error. What the storage answers is
  not decided by the processor, so each method is a function of its arguments.
\<close>

record IBucket =
  getConfig :: BucketConfig
  getName :: jsstring
  renameObject :: "jsstring \<Rightarrow> jsstring \<Rightarrow> bool"
  moveToErrors :: "jsstring \<Rightarrow> jsstring \<Rightarrow> jsstring \<Rightarrow> bool"

text \<open>
  \<open>new Subscriber(arn).notify(bucket, newKey)\<close> sends one asynchronous invocation to
  the Lambda service for \<open>arn\<close>, the bucket's name and the key, and rethrows what the
  client throws. The service is a function of these three: \<open>None\<close> when the promise
  resolves, \<open>Some e\<close> when it rejects with an error that a template literal prints as
  \<open>e\<close>.
\<close>

type_synonym LambdaService = "jsstring \<Rightarrow> jsstring \<Rightarrow> jsstring \<Rightarrow> jsstring option"

definition Subscriber_notify ::
  "LambdaService \<Rightarrow> jsstring \<Rightarrow> IBucket \<Rightarrow> jsstring \<Rightarrow> jsstring option" where
  "Subscriber_notify lambda arn b newKey = lambda arn (getName b) newKey"

text \<open>The part of \<open>S3EventRecord\<close> that \<open>process\<close> reads.\<close>

record S3EventRecord =
  s3_bucket_name :: jsstring
  s3_object_key :: jsstring

text \<open>
  The processor's fields. \<open>clockFn\<close> may answer differently each time it is called:
  \<open>clockFn p n\<close> is what call number \<open>n\<close> (from 0) of one \<open>process\<close> returns.
\<close>

record S3EventProcessor =
  s3record :: S3EventRecord
  bucket :: IBucket
  clockFn :: "nat \<Rightarrow> jsstring"

datatype action =
  skipped_no_match | skipped_already_processed | renamed | error_rename | error_invoke

record ProcessingResult =
  success :: bool
  action :: action
  reason :: "jsstring option"
  originalKey :: jsstring
  newKey :: "jsstring option"
  subscriberInvoked :: "bool option"
  movedToErrors :: "bool option"

text \<open>
  The calls that leave the processor, in the order they are made: the trace of one
  \<open>process\<close>.
\<close>

datatype call =
  ClockFn
| RenameObject jsstring jsstring
| Notify jsstring jsstring
| MoveToErrors jsstring jsstring jsstring

datatype js_error = URIError

section \<open>S3EventProcessor\<close>

text \<open>
  \<open>TIMESTAMP_PREFIX_PATTERN\<close> is
  \<^verbatim>\<open>/^\d{4}-\d{2}-\d{2}T\d{2}:\d{2}:\d{2}\.\d{3}Z-/\<close>:
  a sequence of digit runs of fixed length and literal code units, anchored at the
  start and open at the end. Without the \<open>u\<close> flag \<open>\d\<close> is \<open>[0-9]\<close>; without
  \<open>g\<close> or \<open>y\<close> \<open>test\<close> keeps no state.
\<close>

datatype re_item = Digits nat | Lit code_unit

definition is_digit :: "code_unit \<Rightarrow> bool" where
  "is_digit c = (0x30 \<le> c \<and> c \<le> 0x39)"

fun match_digits :: "nat \<Rightarrow> jsstring \<Rightarrow> jsstring option" where
  "match_digits 0 s = Some s"
| "match_digits (Suc n) [] = None"
| "match_digits (Suc n) (c # cs) = (if is_digit c then match_digits n cs else None)"

text \<open>What is left of the string after the items matched, if they did.\<close>

fun match_items :: "re_item list \<Rightarrow> jsstring \<Rightarrow> jsstring option" where
  "match_items [] s = Some s"
| "match_items (Digits n # r) s =
     (case match_digits n s of None \<Rightarrow> None | Some s' \<Rightarrow> match_items r s')"
| "match_items (Lit x # r) [] = None"
| "match_items (Lit x # r) (c # cs) = (if c = x then match_items r cs else None)"

definition test :: "re_item list \<Rightarrow> jsstring \<Rightarrow> bool" where
  "test r s = (match_items r s \<noteq> None)"

definition TIMESTAMP_PREFIX_PATTERN :: "re_item list" where
  "TIMESTAMP_PREFIX_PATTERN =
     [Digits 4, Lit DASH, Digits 2, Lit DASH, Digits 2, Lit LETTER_T,
      Digits 2, Lit COLON, Digits 2, Lit COLON, Digits 2, Lit PERIOD, Digits 3,
      Lit LETTER_Z, Lit DASH]"

definition isAlreadyProcessed :: "jsstring \<Rightarrow> bool" where
  "isAlreadyProcessed filename = test TIMESTAMP_PREFIX_PATTERN filename"

text \<open>The loop of \<open>findSubfolderConfig\<close> over \<open>config.subdirectories\<close>.\<close>

fun find_subdir :: "BucketSubdirectory list \<Rightarrow> jsstring \<Rightarrow> BucketSubdirectory option" where
  "find_subdir [] key = None"
| "find_subdir (subdir # rest) key =
     (if startsWith key (path subdir @ [SLASH]) then Some subdir
      else find_subdir rest key)"

definition findSubfolderConfig :: "S3EventProcessor \<Rightarrow> jsstring \<Rightarrow> BucketSubdirectory option" where
  "findSubfolderConfig p key = find_subdir (subdirectories (getConfig (bucket p))) key"

text \<open>
  \<open>generateDateBasedFileName\<close> reads the clock once; the trace so far tells which
  call of the clock this is.
\<close>

definition generateDateBasedFileName ::
  "S3EventProcessor \<Rightarrow> call list \<Rightarrow> jsstring \<Rightarrow> jsstring \<Rightarrow> jsstring
     \<Rightarrow> jsstring \<times> call list" where
  "generateDateBasedFileName p tr subfolderPath nestedPath originalFilename =
     (let timestamp = clockFn p (count_list tr ClockFn);
          tr' = tr @ [ClockFn]
      in if nestedPath \<noteq> [] then
           (subfolderPath @ SLASH # nestedPath @ SLASH # timestamp @ DASH # originalFilename, tr')
         else (subfolderPath @ SLASH # timestamp @ DASH # originalFilename, tr'))"

definition invocation_failed :: "jsstring \<Rightarrow> jsstring" where
  "invocation_failed e = js ''Subscriber Lambda invocation failed: '' @ e"

text \<open>
  \<open>process\<close> from the decoded key on (lines 58 to 141). The logging is left out.
  The result comes with the trace of the calls made.
\<close>

definition process_key ::
  "LambdaService \<Rightarrow> S3EventProcessor \<Rightarrow> jsstring \<Rightarrow> ProcessingResult \<times> call list" where
  "process_key lambda p key =
     (let result = \<lparr>success = False, action = error_rename, reason = None,
                     originalKey = key, newKey = None, subscriberInvoked = None,
                     movedToErrors = None\<rparr>
      in case findSubfolderConfig p key of
           None \<Rightarrow>
             (result\<lparr>success := True, action := skipped_no_match,
                     reason := Some (js ''File does not match any configured subdirectory'')\<rparr>,
              [])
         | Some subfolderConfig \<Rightarrow>
             (let filename = or_else (pop (split SLASH key)) []
              in if isAlreadyProcessed filename then
                   (result\<lparr>success := True, action := skipped_already_processed,
                           reason := Some (js ''File already has timestamp prefix indicating previous processing'')\<rparr>,
                    [])
                 else
                   (let relativePath = substring key (length (path subfolderConfig) + 1);
                        pathParts = split SLASH relativePath;
                        filenameOnly = last_element pathParts;
                        nestedPath = join SLASH (butlast pathParts);
                        (newKey', tr1) =
                          generateDateBasedFileName p [] (path subfolderConfig) nestedPath filenameOnly;
                        renamed' = renameObject (bucket p) key newKey';
                        tr2 = tr1 @ [RenameObject key newKey']
                    in if \<not> renamed' then
                         (result\<lparr>action := error_rename,
                                 reason := Some (js ''Failed to rename object in S3'')\<rparr>,
                          tr2)
                       else
                         (let result' = result\<lparr>newKey := Some newKey', action := renamed\<rparr>;
                              tr3 = tr2 @ [Notify (subscriberLambdaArn subfolderConfig) newKey']
                          in case Subscriber_notify lambda (subscriberLambdaArn subfolderConfig)
                                    (bucket p) newKey' of
                               None \<Rightarrow>
                                 (result'\<lparr>subscriberInvoked := Some True, success := True\<rparr>, tr3)
                             | Some e \<Rightarrow>
                                 (let moved =
                                        moveToErrors (bucket p) newKey' (path subfolderConfig)
                                          (invocation_failed e);
                                      tr4 = tr3 @ [MoveToErrors newKey' (path subfolderConfig)
                                                     (invocation_failed e)]
                                  in (result'\<lparr>success := False, action := error_invoke,
                                              reason := Some (invocation_failed e),
                                              subscriberInvoked := Some False,
                                              movedToErrors := Some moved\<rparr>,
                                      tr4))))))"

text \<open>
  \<open>process\<close>: line 54 decodes the key of the record, and a URIError of
  \<open>decodeURIComponent\<close> leaves \<open>process\<close> as a rejected promise, before any call.
\<close>

definition process ::
  "LambdaService \<Rightarrow> S3EventProcessor \<Rightarrow> js_error + ProcessingResult \<times> call list" where
  "process lambda p =
     (case decodeURIComponent (replace_plus (s3_object_key (s3record p))) of
        None \<Rightarrow> Inl URIError
      | Some key \<Rightarrow> Inr (process_key lambda p key))"

text \<open>
  The new key of lines 92 to 98, as a function of the processor, the matched
  subdirectory and the decoded key: what \<open>process\<close> passes to \<open>renameObject\<close>.
\<close>

definition transition :: "S3EventProcessor \<Rightarrow> BucketSubdirectory \<Rightarrow> jsstring \<Rightarrow> jsstring" where
  "transition p subfolderConfig key =
     (let relativePath = substring key (length (path subfolderConfig) + 1);
          pathParts = split SLASH relativePath;
          filenameOnly = last_element pathParts;
          nestedPath = join SLASH (butlast pathParts)
      in fst (generateDateBasedFileName p [] (path subfolderConfig) nestedPath filenameOnly))"

section \<open>Specification-level notions\<close>

text \<open>
  The recursion guard in the words of the specification: four digits, a dash, two
  digits, a dash, two digits, T, two digits, a colon, two digits, a colon, two digits, a
  period, three digits, Z, a dash, from position 0 of the filename.
\<close>

definition digits :: "nat \<Rightarrow> nat \<Rightarrow> jsstring \<Rightarrow> bool" where
  "digits n i s = (i + n \<le> length s \<and> list_all is_digit (take n (drop i s)))"

definition lit :: "code_unit \<Rightarrow> nat \<Rightarrow> jsstring \<Rightarrow> bool" where
  "lit c i s = (i < length s \<and> s ! i = c)"

definition isMarked_spec :: "jsstring \<Rightarrow> bool" where
  "isMarked_spec f =
     (digits 4 0 f \<and> lit DASH 4 f \<and> digits 2 5 f \<and> lit DASH 7 f \<and> digits 2 8 f
      \<and> lit LETTER_T 10 f \<and> digits 2 11 f \<and> lit COLON 13 f \<and> digits 2 14 f
      \<and> lit COLON 16 f \<and> digits 2 17 f \<and> lit PERIOD 19 f \<and> digits 3 20 f
      \<and> lit LETTER_Z 23 f \<and> lit DASH 24 f)"

text \<open>The items at positions of the string, from position \<open>i\<close> on.\<close>

fun holds_at :: "re_item list \<Rightarrow> nat \<Rightarrow> jsstring \<Rightarrow> bool" where
  "holds_at [] i s = True"
| "holds_at (Digits n # r) i s = (digits n i s \<and> holds_at r (i + n) s)"
| "holds_at (Lit x # r) i s = (lit x i s \<and> holds_at r (Suc i) s)"

text \<open>
  The format of \<open>Date.prototype.toISOString\<close> for the years 0000 to 9999, which is
  what the default clock \<open>() => new Date().toISOString()\<close> returns: the whole string
  is \<open>YYYY-MM-DDTHH:mm:ss.sssZ\<close>.
\<close>

definition ISO_TIMESTAMP_PATTERN :: "re_item list" where
  "ISO_TIMESTAMP_PATTERN =
     [Digits 4, Lit DASH, Digits 2, Lit DASH, Digits 2, Lit LETTER_T,
      Digits 2, Lit COLON, Digits 2, Lit COLON, Digits 2, Lit PERIOD, Digits 3,
      Lit LETTER_Z]"

definition is_iso_timestamp :: "jsstring \<Rightarrow> bool" where
  "is_iso_timestamp ts = (match_items ISO_TIMESTAMP_PATTERN ts = Some [])"

section \<open>The fixtures of the test suite\<close>

text \<open>
  \<open>bucketConfig\<close>, \<open>mockBucket\<close>, \<open>createMockRecord\<close> and \<open>fixedTimestamp\<close> of
  \<open>test/S3EventProcessor.test.ts\<close>. \<open>mockResolvedValue\<close> is a mock that answers the
  same value whatever its arguments are, and \<open>mockRejectedValue\<close> a notifier that
  rejects with the given error text.
\<close>

definition mockResolvedValue2 :: "'r \<Rightarrow> 'a \<Rightarrow> 'b \<Rightarrow> 'r" where
  "mockResolvedValue2 v a b = v"

definition mockResolvedValue3 :: "'r \<Rightarrow> 'a \<Rightarrow> 'b \<Rightarrow> 'c \<Rightarrow> 'r" where
  "mockResolvedValue3 v a b c = v"

definition notify_resolves :: LambdaService where
  "notify_resolves = mockResolvedValue3 None"

definition mockRejectedValue :: "jsstring \<Rightarrow> LambdaService" where
  "mockRejectedValue e = mockResolvedValue3 (Some e)"

definition constant_clock :: "jsstring \<Rightarrow> nat \<Rightarrow> jsstring" where
  "constant_clock ts n = ts"

definition fixedTimestamp :: jsstring where
  "fixedTimestamp = js ''2026-02-22T10:30:00.000Z''"

definition person_full :: BucketSubdirectory where
  "person_full =
     \<lparr>path = js ''person-full'', objectLifetimeDays = 7, errorObjectLifetimeDays = Some 14,
      subscriberLambdaArn = js ''arn:aws:lambda:us-east-2:123456789012:function:subscriber-full'',
      subscriberLambdaExecutionRoleArn = js ''arn:aws:iam::123456789012:role/subscriber-role''\<rparr>"

definition person_delta :: BucketSubdirectory where
  "person_delta =
     \<lparr>path = js ''person-delta'', objectLifetimeDays = 3, errorObjectLifetimeDays = None,
      subscriberLambdaArn = js ''arn:aws:lambda:us-east-2:123456789012:function:subscriber-delta'',
      subscriberLambdaExecutionRoleArn = js ''arn:aws:iam::123456789012:role/subscriber-role''\<rparr>"

definition bucketConfig :: BucketConfig where
  "bucketConfig = \<lparr>name = Some (js ''test-bucket''), subdirectories = [person_full, person_delta]\<rparr>"

definition mockBucket :: "bool \<Rightarrow> bool \<Rightarrow> IBucket" where
  "mockBucket renameAnswer moveAnswer =
     \<lparr>getConfig = bucketConfig, getName = js ''test-bucket'',
      renameObject = mockResolvedValue2 renameAnswer,
      moveToErrors = mockResolvedValue3 moveAnswer\<rparr>"

definition createMockRecord :: "jsstring \<Rightarrow> S3EventRecord" where
  "createMockRecord key = \<lparr>s3_bucket_name = js ''test-bucket'', s3_object_key = key\<rparr>"

definition new_S3EventProcessor ::
  "S3EventRecord \<Rightarrow> IBucket \<Rightarrow> (nat \<Rightarrow> jsstring) \<Rightarrow> S3EventProcessor" where
  "new_S3EventProcessor r b c = \<lparr>s3record = r, bucket = b, clockFn = c\<rparr>"

text \<open>
  A subdirectory as the tests push one onto the configuration, and a mock bucket over
  any list of subdirectories.
\<close>

definition subdirectory_at :: "jsstring \<Rightarrow> BucketSubdirectory" where
  "subdirectory_at pth =
     \<lparr>path = pth, objectLifetimeDays = 7, errorObjectLifetimeDays = None,
      subscriberLambdaArn = js ''arn:aws:lambda:us-east-2:123456789012:function:test'',
      subscriberLambdaExecutionRoleArn = js ''arn:aws:iam::123456789012:role/test''\<rparr>"

definition bucket_of :: "BucketSubdirectory list \<Rightarrow> bool \<Rightarrow> bool \<Rightarrow> IBucket" where
  "bucket_of subdirs renameAnswer moveAnswer =
     \<lparr>getConfig = \<lparr>name = Some (js ''test-bucket''), subdirectories = subdirs\<rparr>,
      getName = js ''test-bucket'',
      renameObject = mockResolvedValue2 renameAnswer,
      moveToErrors = mockResolvedValue3 moveAnswer\<rparr>"

section \<open>Lemmas about strings, the pattern and the steps of process\<close>

lemma split_not_Nil [simp]: "split sep s \<noteq> []"
  by (induction s) (auto split: list.splits)

lemma split_append_sep: "split sep (a @ sep # b) = split sep a @ split sep b"
  by (induction a) (auto split: list.splits)

lemma split_no_sep: "sep \<notin> set s \<Longrightarrow> split sep s = [s]"
  by (induction s) auto

lemma split_segments_no_sep: "seg \<in> set (split sep s) \<Longrightarrow> sep \<notin> set seg"
  by (induction s arbitrary: seg) (auto split: if_splits list.splits)

lemma join_Cons: "segs \<noteq> [] \<Longrightarrow> join sep (seg # segs) = seg @ sep # join sep segs"
  by (cases segs) auto

lemma join_Cons_Cons: "join sep ((c # seg) # segs) = c # join sep (seg # segs)"
  by (cases segs) auto

lemma join_split [simp]: "join sep (split sep s) = s"
  by (induction s) (auto simp: join_Cons join_Cons_Cons split: list.splits)

lemma join_snoc: "segs \<noteq> [] \<Longrightarrow> join sep (segs @ [seg]) = join sep segs @ sep # seg"
  by (induction segs rule: join.induct) auto

lemma startsWith_prefix: "startsWith s p \<longleftrightarrow> prefix p s"
  by (induction s p rule: startsWith.induct) auto

lemma find_subdir_Some_iff:
  "find_subdir sds key = Some sd \<longleftrightarrow>
     (\<exists>before after. sds = before @ sd # after \<and> prefix (path sd @ [SLASH]) key
        \<and> (\<forall>x\<in>set before. \<not> prefix (path x @ [SLASH]) key))"
proof (induction sds)
  case Nil
  then show ?case by simp
next
  case (Cons a sds)
  show ?case
  proof (cases "prefix (path a @ [SLASH]) key")
    case True
    then show ?thesis
      apply (simp add: startsWith_prefix)
      apply (rule iffI)
       apply (rule exI[of _ "[]"]) apply simp
      apply (elim exE conjE)
      subgoal for before after
        by (cases before) auto
      done
  next
    case False
    then show ?thesis
      apply (simp add: startsWith_prefix Cons.IH)
      apply (rule iffI)
       apply (elim exE conjE)
      subgoal for before after
        by (rule exI[of _ "a # before"]) auto
      apply (elim exE conjE)
      subgoal for before after
        by (cases before) auto
      done
  qed
qed

lemma find_subdir_None_iff:
  "find_subdir sds key = None \<longleftrightarrow> (\<forall>x\<in>set sds. \<not> prefix (path x @ [SLASH]) key)"
  by (induction sds) (auto simp: startsWith_prefix)


lemma filename_last: "or_else (pop (split SLASH key)) [] = last (split SLASH key)"
  by (simp add: or_else_def pop_def)

lemma last_element_split: "last_element (split sep s) = last (split sep s)"
  by (simp add: last_element_def)

lemma last_split_append: "last (split sep (a @ sep # b)) = last (split sep b)"
  by (simp add: split_append_sep)

lemma matched_prefix:
  "findSubfolderConfig p key = Some sc \<Longrightarrow> prefix (path sc @ [SLASH]) key"
  by (auto simp: findSubfolderConfig_def find_subdir_Some_iff)

lemma matched_key:
  assumes "findSubfolderConfig p key = Some sc"
  shows "key = path sc @ SLASH # substring key (length (path sc) + 1)"
proof -
  from matched_prefix [OF assms] obtain r where "key = (path sc @ [SLASH]) @ r"
    by (auto simp: prefix_def)
  then show ?thesis by (simp add: substring_def)
qed

lemma transition_eq:
  "transition p sc key =
     (let rel = substring key (length (path sc) + 1);
          nested = join SLASH (butlast (split SLASH rel))
      in path sc @ SLASH # (if nested \<noteq> [] then nested @ [SLASH] else [])
           @ clockFn p 0 @ DASH # last (split SLASH rel))"
  by (simp add: transition_def generateDateBasedFileName_def Let_def last_element_split)

lemma process_key_no_match:
  "findSubfolderConfig p key = None \<Longrightarrow>
   process_key lambda p key =
     (\<lparr>success = True, action = skipped_no_match,
       reason = Some (js ''File does not match any configured subdirectory''),
       originalKey = key, newKey = None, subscriberInvoked = None, movedToErrors = None\<rparr>, [])"
  by (simp add: process_key_def)

lemma process_key_marked:
  "findSubfolderConfig p key = Some sc \<Longrightarrow> isAlreadyProcessed (last (split SLASH key)) \<Longrightarrow>
   process_key lambda p key =
     (\<lparr>success = True, action = skipped_already_processed,
       reason = Some (js ''File already has timestamp prefix indicating previous processing''),
       originalKey = key, newKey = None, subscriberInvoked = None, movedToErrors = None\<rparr>, [])"
  by (simp add: process_key_def filename_last)

lemma process_key_unmarked:
  assumes "findSubfolderConfig p key = Some sc"
    and "\<not> isAlreadyProcessed (last (split SLASH key))"
  shows "process_key lambda p key =
     (if \<not> renameObject (bucket p) key (transition p sc key) then
        (\<lparr>success = False, action = error_rename,
          reason = Some (js ''Failed to rename object in S3''),
          originalKey = key, newKey = None, subscriberInvoked = None, movedToErrors = None\<rparr>,
         [ClockFn, RenameObject key (transition p sc key)])
      else
        (case Subscriber_notify lambda (subscriberLambdaArn sc) (bucket p) (transition p sc key) of
           None \<Rightarrow>
             (\<lparr>success = True, action = renamed, reason = None,
               originalKey = key, newKey = Some (transition p sc key),
               subscriberInvoked = Some True, movedToErrors = None\<rparr>,
              [ClockFn, RenameObject key (transition p sc key),
               Notify (subscriberLambdaArn sc) (transition p sc key)])
         | Some e \<Rightarrow>
             (\<lparr>success = False, action = error_invoke, reason = Some (invocation_failed e),
               originalKey = key, newKey = Some (transition p sc key),
               subscriberInvoked = Some False,
               movedToErrors =
                 Some (moveToErrors (bucket p) (transition p sc key) (path sc)
                         (invocation_failed e))\<rparr>,
              [ClockFn, RenameObject key (transition p sc key),
               Notify (subscriberLambdaArn sc) (transition p sc key),
               MoveToErrors (transition p sc key) (path sc) (invocation_failed e)])))"
  using assms
  by (simp add: process_key_def filename_last transition_def generateDateBasedFileName_def
      Let_def split: option.splits)


lemma match_digits_append:
  "match_digits n s = Some r \<Longrightarrow> match_digits n (s @ t) = Some (r @ t)"
  by (induction n s rule: match_digits.induct) (auto split: if_splits)

lemma match_items_append:
  "match_items r s = Some rest \<Longrightarrow> match_items r (s @ t) = Some (rest @ t)"
  by (induction r s rule: match_items.induct)
    (auto split: if_splits option.splits simp: match_digits_append)

lemma match_items_concat:
  "match_items (r @ r') s =
     (case match_items r s of None \<Rightarrow> None | Some s' \<Rightarrow> match_items r' s')"
  by (induction r s rule: match_items.induct) (auto split: option.splits)

lemma match_digits_chars:
  "match_digits n s = Some rest \<Longrightarrow> \<exists>m. s = m @ rest \<and> (\<forall>x\<in>set m. is_digit x)"
proof (induction n s rule: match_digits.induct)
  case (3 n c cs)
  then obtain m where "cs = m @ rest" "\<forall>x\<in>set m. is_digit x" "is_digit c"
    by (auto split: if_splits)
  then show ?case
    by (intro exI [of _ "c # m"]) simp
qed auto

lemma match_items_chars:
  "match_items r s = Some rest \<Longrightarrow>
   \<exists>m. s = m @ rest \<and> (\<forall>x\<in>set m. is_digit x \<or> Lit x \<in> set r)"
proof (induction r s rule: match_items.induct)
  case (1 s)
  then show ?case by simp
next
  case (2 n r s)
  then obtain s' where d: "match_digits n s = Some s'" and i: "match_items r s' = Some rest"
    by (auto split: option.splits)
  from match_digits_chars [OF d] obtain m1 where m1: "s = m1 @ s'" "\<forall>x\<in>set m1. is_digit x"
    by blast
  from "2.IH" [OF d i] obtain m2 where m2: "s' = m2 @ rest"
    "\<forall>x\<in>set m2. is_digit x \<or> Lit x \<in> set r"
    by blast
  from m1 m2 show ?case
    by (intro exI [of _ "m1 @ m2"]) auto
next
  case (3 x r)
  then show ?case by simp
next
  case (4 x r c cs)
  then obtain m where "cs = m @ rest" "\<forall>y\<in>set m. is_digit y \<or> Lit y \<in> set r" "c = x"
    by (auto split: if_splits)
  then show ?case
    by (intro exI [of _ "c # m"]) auto
qed

lemma TIMESTAMP_PREFIX_PATTERN_eq:
  "TIMESTAMP_PREFIX_PATTERN = ISO_TIMESTAMP_PATTERN @ [Lit DASH]"
  by (simp add: TIMESTAMP_PREFIX_PATTERN_def ISO_TIMESTAMP_PATTERN_def)

lemma iso_timestamp_marks:
  assumes "is_iso_timestamp ts"
  shows "isAlreadyProcessed (ts @ DASH # f)"
proof -
  from assms have "match_items ISO_TIMESTAMP_PATTERN (ts @ DASH # f) = Some (DASH # f)"
    using match_items_append [of ISO_TIMESTAMP_PATTERN ts "[]" "DASH # f"]
    by (simp add: is_iso_timestamp_def)
  then show ?thesis
    by (simp add: isAlreadyProcessed_def test_def TIMESTAMP_PREFIX_PATTERN_eq match_items_concat)
qed

lemma iso_timestamp_no_slash:
  assumes "is_iso_timestamp ts"
  shows "SLASH \<notin> set ts"
proof
  assume "SLASH \<in> set ts"
  moreover from assms match_items_chars [of ISO_TIMESTAMP_PATTERN ts "[]"]
  have "\<forall>x\<in>set ts. is_digit x \<or> Lit x \<in> set ISO_TIMESTAMP_PATTERN"
    by (auto simp: is_iso_timestamp_def)
  ultimately have "is_digit SLASH \<or> Lit SLASH \<in> set ISO_TIMESTAMP_PATTERN"
    by blast
  then show False
    by (simp add: is_digit_def ISO_TIMESTAMP_PATTERN_def)
qed

lemma last_split_transition:
  assumes "SLASH \<notin> set (clockFn p 0)"
  shows "last (split SLASH (transition p sc key)) =
     clockFn p 0 @ DASH # last (split SLASH (substring key (length (path sc) + 1)))"
proof -
  let ?rel = "substring key (length (path sc) + 1)"
  let ?f = "last (split SLASH ?rel)"
  let ?new = "clockFn p 0 @ DASH # ?f"
  have "SLASH \<notin> set ?f"
    by (rule split_segments_no_sep [of _ _ ?rel]) simp
  with assms have "SLASH \<notin> set ?new" by simp
  then have one: "split SLASH ?new = [?new]" by (rule split_no_sep)
  show ?thesis
  proof (cases "join SLASH (butlast (split SLASH ?rel)) = []")
    case True
    then have "transition p sc key = path sc @ SLASH # ?new"
      by (simp add: transition_eq Let_def)
    with one show ?thesis by (simp add: last_split_append)
  next
    case False
    then have "transition p sc key =
        (path sc @ SLASH # join SLASH (butlast (split SLASH ?rel))) @ SLASH # ?new"
      by (simp add: transition_eq Let_def)
    with one show ?thesis by (simp only: last_split_append) simp
  qed
qed

lemma transition_prefix: "prefix (path sc @ [SLASH]) (transition p sc key)"
  by (simp add: transition_eq Let_def prefix_def)

lemma rel_decomposition:
  "rel = (if butlast (split SLASH rel) = [] then [] else join SLASH (butlast (split SLASH rel)) @ [SLASH])
          @ last (split SLASH rel)"
proof -
  have parts: "split SLASH rel = butlast (split SLASH rel) @ [last (split SLASH rel)]"
    by simp
  show ?thesis
  proof (cases "butlast (split SLASH rel) = []")
    case True
    with parts have "split SLASH rel = [last (split SLASH rel)]" by simp
    then have "join SLASH (split SLASH rel) = last (split SLASH rel)"
      by (metis join.simps(2))
    with True show ?thesis by simp
  next
    case False
    have "join SLASH (split SLASH rel) =
        join SLASH (butlast (split SLASH rel)) @ SLASH # last (split SLASH rel)"
      using join_snoc [OF False, of SLASH "last (split SLASH rel)"] parts by simp
    with False show ?thesis by simp
  qed
qed

lemma transition_differs:
  assumes "findSubfolderConfig p key = Some sc"
  shows "transition p sc key \<noteq> key"
proof
  let ?rel = "substring key (length (path sc) + 1)"
  let ?parts = "split SLASH ?rel"
  let ?nested = "join SLASH (butlast ?parts)"
  let ?f = "last ?parts"
  assume eq: "transition p sc key = key"
  have key: "key = path sc @ SLASH # ?rel"
    by (rule matched_key [OF assms])
  have "transition p sc key = path sc @ SLASH #
      ((if ?nested \<noteq> [] then ?nested @ [SLASH] else []) @ clockFn p 0 @ DASH # ?f)"
    by (simp add: transition_eq Let_def)
  with eq key have rel: "(if ?nested \<noteq> [] then ?nested @ [SLASH] else []) @ clockFn p 0 @ DASH # ?f = ?rel"
    by (metis same_append_eq list.inject)
  have dec: "?rel = (if butlast ?parts = [] then [] else ?nested @ [SLASH]) @ ?f"
    by (rule rel_decomposition)
  show False
  proof (cases "butlast ?parts = []")
    case True
    with dec rel have "length (clockFn p 0 @ DASH # ?f) = length ?f"
      by simp
    then show False by simp
  next
    case False
    show False
    proof (cases "?nested = []")
      case True
      with False dec have "?rel = SLASH # ?f" by simp
      moreover from True rel have "clockFn p 0 @ DASH # ?f = ?rel" by simp
      ultimately have e: "clockFn p 0 @ DASH # ?f = SLASH # ?f" by simp
      then have "length (clockFn p 0 @ DASH # ?f) = length (SLASH # ?f)" by simp
      then have "clockFn p 0 = []" by simp
      with e show False by simp
    next
      case nonempty: False
      with False dec rel have "length (?nested @ [SLASH] @ clockFn p 0 @ DASH # ?f) = length (?nested @ [SLASH] @ ?f)"
        by simp
      then show False by simp
    qed
  qed
qed

lemma split_trailing_sep:
  assumes "s \<noteq> []" and "last s = sep"
  shows "split sep s = split sep (butlast s) @ [[]]"
proof -
  from assms have "s = butlast s @ sep # []"
    by (metis append_butlast_last_id)
  then have "split sep s = split sep (butlast s @ sep # [])" by simp
  then show ?thesis by (simp only: split_append_sep split.simps)
qed

lemma clock_read_at_most_once: "count_list (snd (process_key lambda p key)) ClockFn \<le> 1"
proof (cases "findSubfolderConfig p key")
  case None
  then show ?thesis by (simp add: process_key_no_match)
next
  case (Some sc)
  show ?thesis
  proof (cases "isAlreadyProcessed (last (split SLASH key))")
    case True
    with Some show ?thesis by (simp add: process_key_marked)
  next
    case False
    with Some show ?thesis
      by (simp add: process_key_unmarked split: option.splits)
  qed
qed

lemma unmarked_calls_rename:
  assumes "findSubfolderConfig p key = Some sc"
    and "\<not> isAlreadyProcessed (last (split SLASH key))"
  shows "\<exists>res tr. process_key lambda p key = (res, ClockFn # RenameObject key (transition p sc key) # tr)
      \<and> ClockFn \<notin> set tr"
  using assms by (simp add: process_key_unmarked split: option.splits)

lemma decomposed_parts:
  assumes "SLASH \<notin> set f"
  shows "last (split SLASH ((if nested = [] then [] else nested @ [SLASH]) @ f)) = f
     \<and> join SLASH (butlast (split SLASH ((if nested = [] then [] else nested @ [SLASH]) @ f))) = nested"
proof (cases "nested = []")
  case True
  with assms show ?thesis by (simp add: split_no_sep)
next
  case False
  have "split SLASH (nested @ SLASH # f) = split SLASH nested @ [f]"
    using assms by (simp add: split_append_sep split_no_sep)
  with False show ?thesis by simp
qed

lemma process_key_originalKey: "originalKey (fst (process_key lambda p key)) = key"
proof (cases "findSubfolderConfig p key")
  case None
  then show ?thesis by (simp add: process_key_no_match)
next
  case (Some sc)
  show ?thesis
  proof (cases "isAlreadyProcessed (last (split SLASH key))")
    case True
    with Some show ?thesis by (simp add: process_key_marked)
  next
    case False
    with Some show ?thesis
      by (simp add: process_key_unmarked split: option.splits)
  qed
qed

lemma process_key_renames_key:
  "RenameObject k nk \<in> set (snd (process_key lambda p key)) \<Longrightarrow> k = key"
proof (cases "findSubfolderConfig p key")
  case None
  assume "RenameObject k nk \<in> set (snd (process_key lambda p key))"
  with None show ?thesis by (simp add: process_key_no_match)
next
  case (Some sc)
  assume r: "RenameObject k nk \<in> set (snd (process_key lambda p key))"
  show ?thesis
  proof (cases "isAlreadyProcessed (last (split SLASH key))")
    case True
    with Some r show ?thesis by (simp add: process_key_marked)
  next
    case False
    with Some r show ?thesis
      by (auto simp: process_key_unmarked split: option.splits if_splits)
  qed
qed

lemma process_key_same_bucket_and_clock:
  assumes "bucket q = bucket p" and "clockFn q = clockFn p"
  shows "process_key lambda q key = process_key lambda p key"
proof -
  have f: "findSubfolderConfig q = findSubfolderConfig p"
    by (simp add: fun_eq_iff findSubfolderConfig_def assms)
  have g: "generateDateBasedFileName q = generateDateBasedFileName p"
    by (simp add: fun_eq_iff generateDateBasedFileName_def assms)
  show ?thesis
    unfolding process_key_def f g assms(1) by (rule refl)
qed

lemma matched_not_None:
  assumes "sc \<in> set (subdirectories (getConfig (bucket q)))"
    and "prefix (path sc @ [SLASH]) k"
  shows "\<exists>sc'. findSubfolderConfig q k = Some sc'"
proof (cases "findSubfolderConfig q k")
  case None
  with assms show ?thesis
    by (auto simp: findSubfolderConfig_def find_subdir_None_iff)
next
  case (Some sc')
  then show ?thesis by simp
qed

lemma matched_member:
  "findSubfolderConfig p key = Some sc \<Longrightarrow> sc \<in> set (subdirectories (getConfig (bucket p)))"
  by (auto simp: findSubfolderConfig_def find_subdir_Some_iff)

lemma match_digits_eq:
  "match_digits n s =
     (if n \<le> length s \<and> list_all is_digit (take n s) then Some (drop n s) else None)"
  by (induction n s rule: match_digits.induct) auto

lemma test_Nil: "test [] s"
  by (simp add: test_def)

lemma test_Digits:
  "test (Digits n # r) s =
     (n \<le> length s \<and> list_all is_digit (take n s) \<and> test r (drop n s))"
  by (auto simp: test_def match_digits_eq)

lemma test_Lit: "test (Lit x # r) s = (s \<noteq> [] \<and> hd s = x \<and> test r (tl s))"
  by (cases s) (simp_all add: test_def)

lemma test_holds_at: "i \<le> length s \<Longrightarrow> test r (drop i s) = holds_at r i s"
proof (induction r arbitrary: i)
  case Nil
  then show ?case by (simp add: test_Nil)
next
  case (Cons item r)
  show ?case
  proof (cases item)
    case (Digits n)
    show ?thesis
    proof (cases "i + n \<le> length s")
      case True
      with Cons.IH [of "i + n"] have "test r (drop (i + n) s) = holds_at r (i + n) s"
        by simp
      with True Cons.prems show ?thesis
        by (auto simp: Digits test_Digits digits_def add.commute)
    next
      case False
      with Cons.prems show ?thesis
        by (auto simp: Digits test_Digits digits_def)
    qed
  next
    case (Lit x)
    show ?thesis
    proof (cases "i < length s")
      case True
      then have "drop i s = s ! i # drop (Suc i) s"
        by (simp add: Cons_nth_drop_Suc)
      moreover from True Cons.IH [of "Suc i"]
      have "test r (drop (Suc i) s) = holds_at r (Suc i) s"
        by simp
      ultimately show ?thesis
        using True by (simp add: Lit test_Lit lit_def)
    next
      case False
      with Cons.prems show ?thesis
        by (simp add: Lit test_Lit lit_def)
    qed
  qed
qed

lemma isAlreadyProcessed_spec: "isAlreadyProcessed f = isMarked_spec f"
  using test_holds_at [of 0 f TIMESTAMP_PREFIX_PATTERN]
  by (simp add: isAlreadyProcessed_def isMarked_spec_def TIMESTAMP_PREFIX_PATTERN_def)

lemma unmarked_action:
  assumes "findSubfolderConfig p key = Some sc"
    and "\<not> isAlreadyProcessed (last (split SLASH key))"
  shows "action (fst (process_key lambda p key)) \<noteq> skipped_already_processed"
  using assms by (simp add: process_key_unmarked split: option.splits)

section \<open>The claims\<close>

text \<open>
  In the theorems below \<open>key\<close> is the decoded key, \<open>last (split SLASH key)\<close> its
  filename segment (the value of \<open>filename\<close> at line 79, by \<open>filename_last\<close>), and
  \<open>transition p sc key\<close> the new key. The second component of what \<open>process\<close>
  returns lists every call made, in order, so a trace without a \<open>RenameObject\<close>,
  \<open>Notify\<close> or \<open>MoveToErrors\<close> entry means that call was not made.
\<close>

text \<open>
  Claim C3. A decoded key that no configured path followed by a slash is a prefix of
  makes \<open>process\<close> return skipped-no-match with success true and make no call at
  all: no rename, no notification, no move to the errors folder.
\<close>

theorem no_match_is_skipped:
  assumes "decodeURIComponent (replace_plus (s3_object_key (s3record p))) = Some key"
    and "\<forall>sd\<in>set (subdirectories (getConfig (bucket p))). \<not> prefix (path sd @ [SLASH]) key"
  shows "process lambda p =
     Inr (\<lparr>success = True, action = skipped_no_match,
           reason = Some (js ''File does not match any configured subdirectory''),
           originalKey = key, newKey = None, subscriberInvoked = None,
           movedToErrors = None\<rparr>, [])"
proof -
  from assms(2) have "findSubfolderConfig p key = None"
    by (simp add: findSubfolderConfig_def find_subdir_None_iff)
  then show ?thesis
    using assms(1) by (simp add: process_def process_key_no_match)
qed

theorem no_match_is_skipped_witness:
  "decodeURIComponent (replace_plus (s3_object_key (s3record
      (new_S3EventProcessor (createMockRecord (js ''unconfigured-folder/test-file.json''))
         (mockBucket True True) (constant_clock fixedTimestamp)))))
     = Some (js ''unconfigured-folder/test-file.json'')
   \<and> \<not> prefix (js ''person-full/'') (js ''unconfigured-folder/test-file.json'')
   \<and> \<not> prefix (js ''person-delta/'') (js ''unconfigured-folder/test-file.json'')
   \<and> process notify_resolves
        (new_S3EventProcessor (createMockRecord (js ''unconfigured-folder/test-file.json''))
           (mockBucket True True) (constant_clock fixedTimestamp))
       = Inr (\<lparr>success = True, action = skipped_no_match,
               reason = Some (js ''File does not match any configured subdirectory''),
               originalKey = js ''unconfigured-folder/test-file.json'', newKey = None,
               subscriberInvoked = None, movedToErrors = None\<rparr>, [])"
proof -
  let ?p = "new_S3EventProcessor (createMockRecord (js ''unconfigured-folder/test-file.json''))
         (mockBucket True True) (constant_clock fixedTimestamp)"
  let ?key = "js ''unconfigured-folder/test-file.json''"
  have dec: "decodeURIComponent (replace_plus (s3_object_key (s3record ?p))) = Some ?key"
    by code_simp
  have a: "\<not> prefix (js ''person-full/'') ?key"
    by code_simp
  have b: "\<not> prefix (js ''person-delta/'') ?key"
    by code_simp
  have none: "\<forall>sd\<in>set (subdirectories (getConfig (bucket ?p))). \<not> prefix (path sd @ [SLASH]) ?key"
    by code_simp
  from no_match_is_skipped [OF dec none, of notify_resolves] dec a b show ?thesis
    by blast
qed

text \<open>
  Claim C4. \<open>findSubfolderConfig\<close> returns the first subdirectory, in the order of the
  configuration, whose path followed by a slash is a prefix of the key, and nothing
  when there is none. With the paths \<open>a\<close> and \<open>a/b\<close> in this order the key
  \<open>a/b/x.json\<close> resolves to \<open>a\<close>; in the other order it resolves to \<open>a/b\<close>.
\<close>

theorem first_match_in_declaration_order:
  "(findSubfolderConfig p key = Some sd \<longleftrightarrow>
      (\<exists>before after. subdirectories (getConfig (bucket p)) = before @ sd # after
         \<and> prefix (path sd @ [SLASH]) key
         \<and> (\<forall>x\<in>set before. \<not> prefix (path x @ [SLASH]) key)))
   \<and> (findSubfolderConfig p key = None \<longleftrightarrow>
      (\<forall>x\<in>set (subdirectories (getConfig (bucket p))). \<not> prefix (path x @ [SLASH]) key))
   \<and> (path a = js ''a'' \<and> path ab = js ''a/b''
        \<and> subdirectories (getConfig (bucket p)) = [a, ab]
      \<longrightarrow> findSubfolderConfig p (js ''a/b/x.json'') = Some a)
   \<and> (path a = js ''a'' \<and> path ab = js ''a/b''
        \<and> subdirectories (getConfig (bucket p)) = [ab, a]
      \<longrightarrow> findSubfolderConfig p (js ''a/b/x.json'') = Some ab)"
proof (intro conjI impI)
  show "findSubfolderConfig p key = Some sd \<longleftrightarrow>
      (\<exists>before after. subdirectories (getConfig (bucket p)) = before @ sd # after
         \<and> prefix (path sd @ [SLASH]) key
         \<and> (\<forall>x\<in>set before. \<not> prefix (path x @ [SLASH]) key))"
    by (simp only: findSubfolderConfig_def find_subdir_Some_iff)
  show "findSubfolderConfig p key = None \<longleftrightarrow>
      (\<forall>x\<in>set (subdirectories (getConfig (bucket p))). \<not> prefix (path x @ [SLASH]) key)"
    by (simp only: findSubfolderConfig_def find_subdir_None_iff)
  have starts: "startsWith (js ''a/b/x.json'') (js ''a'' @ [SLASH])"
    "startsWith (js ''a/b/x.json'') (js ''a/b'' @ [SLASH])"
    by (simp_all add: js_def)
  show "findSubfolderConfig p (js ''a/b/x.json'') = Some a"
    if "path a = js ''a'' \<and> path ab = js ''a/b'' \<and> subdirectories (getConfig (bucket p)) = [a, ab]"
    using that starts by (simp add: findSubfolderConfig_def)
  show "findSubfolderConfig p (js ''a/b/x.json'') = Some ab"
    if "path a = js ''a'' \<and> path ab = js ''a/b'' \<and> subdirectories (getConfig (bucket p)) = [ab, a]"
    using that starts by (simp add: findSubfolderConfig_def)
qed

theorem first_match_in_declaration_order_witness:
  "path (subdirectory_at (js ''a'')) = js ''a''
   \<and> path (subdirectory_at (js ''a/b'')) = js ''a/b''
   \<and> subdirectories (getConfig (bucket (new_S3EventProcessor (createMockRecord (js ''a/b/x.json''))
        (bucket_of [subdirectory_at (js ''a''), subdirectory_at (js ''a/b'')] True True)
        (constant_clock fixedTimestamp))))
      = [subdirectory_at (js ''a''), subdirectory_at (js ''a/b'')]
   \<and> prefix (path (subdirectory_at (js ''a/b'')) @ [SLASH]) (js ''a/b/x.json'')
   \<and> findSubfolderConfig (new_S3EventProcessor (createMockRecord (js ''a/b/x.json''))
        (bucket_of [subdirectory_at (js ''a''), subdirectory_at (js ''a/b'')] True True)
        (constant_clock fixedTimestamp)) (js ''a/b/x.json'')
      = Some (subdirectory_at (js ''a''))
   \<and> subdirectories (getConfig (bucket (new_S3EventProcessor (createMockRecord (js ''a/b/x.json''))
        (bucket_of [subdirectory_at (js ''a/b''), subdirectory_at (js ''a'')] True True)
        (constant_clock fixedTimestamp))))
      = [subdirectory_at (js ''a/b''), subdirectory_at (js ''a'')]
   \<and> findSubfolderConfig (new_S3EventProcessor (createMockRecord (js ''a/b/x.json''))
        (bucket_of [subdirectory_at (js ''a/b''), subdirectory_at (js ''a'')] True True)
        (constant_clock fixedTimestamp)) (js ''a/b/x.json'')
      = Some (subdirectory_at (js ''a/b''))
   \<and> \<not> prefix (path (subdirectory_at (js ''a'')) @ [SLASH]) (js ''ab/x.json'')
   \<and> \<not> prefix (path (subdirectory_at (js ''a/b'')) @ [SLASH]) (js ''ab/x.json'')
   \<and> findSubfolderConfig (new_S3EventProcessor (createMockRecord (js ''a/b/x.json''))
        (bucket_of [subdirectory_at (js ''a''), subdirectory_at (js ''a/b'')] True True)
        (constant_clock fixedTimestamp)) (js ''ab/x.json'')
      = None"
proof -
  let ?a = "subdirectory_at (js ''a'')"
  let ?ab = "subdirectory_at (js ''a/b'')"
  let ?p = "new_S3EventProcessor (createMockRecord (js ''a/b/x.json''))
        (bucket_of [?a, ?ab] True True) (constant_clock fixedTimestamp)"
  let ?q = "new_S3EventProcessor (createMockRecord (js ''a/b/x.json''))
        (bucket_of [?ab, ?a] True True) (constant_clock fixedTimestamp)"
  have a: "path ?a = js ''a''" and b: "path ?ab = js ''a/b''"
    by (simp_all add: subdirectory_at_def)
  have c: "subdirectories (getConfig (bucket ?p)) = [?a, ?ab]"
    by (simp add: new_S3EventProcessor_def bucket_of_def)
  have c': "subdirectories (getConfig (bucket ?q)) = [?ab, ?a]"
    by (simp add: new_S3EventProcessor_def bucket_of_def)
  have d: "prefix (path ?ab @ [SLASH]) (js ''a/b/x.json'')"
    by code_simp
  have n1: "\<not> prefix (path ?a @ [SLASH]) (js ''ab/x.json'')"
    by code_simp
  have n2: "\<not> prefix (path ?ab @ [SLASH]) (js ''ab/x.json'')"
    by code_simp
  from first_match_in_declaration_order [of ?p "js ''a/b/x.json''" ?a ?a ?ab] a b c
  have first: "findSubfolderConfig ?p (js ''a/b/x.json'') = Some ?a"
    by blast
  from first_match_in_declaration_order [of ?q "js ''a/b/x.json''" ?a ?a ?ab] a b c'
  have second: "findSubfolderConfig ?q (js ''a/b/x.json'') = Some ?ab"
    by blast
  from n1 n2 c have "\<forall>x\<in>set (subdirectories (getConfig (bucket ?p))).
      \<not> prefix (path x @ [SLASH]) (js ''ab/x.json'')"
    by simp
  with first_match_in_declaration_order [of ?p "js ''ab/x.json''" ?a ?a ?ab]
  have none: "findSubfolderConfig ?p (js ''ab/x.json'') = None"
    by blast
  from a b c d first c' second n1 n2 none show ?thesis
    by blast
qed


text \<open>
  Claim C7. For a key that matches a subdirectory and whose filename is not marked,
  when \<open>renameObject\<close> answers false \<open>process\<close> returns error-rename with
  success false and the reason "Failed to rename object in S3"; the calls made are the
  clock and the rename, so neither the notifier nor \<open>moveToErrors\<close> is called.
\<close>

theorem rename_failure_is_error_rename:
  assumes "decodeURIComponent (replace_plus (s3_object_key (s3record p))) = Some key"
    and "findSubfolderConfig p key = Some sc"
    and "\<not> isAlreadyProcessed (last (split SLASH key))"
    and "\<not> renameObject (bucket p) key (transition p sc key)"
  shows "process lambda p =
     Inr (\<lparr>success = False, action = error_rename,
           reason = Some (js ''Failed to rename object in S3''),
           originalKey = key, newKey = None, subscriberInvoked = None,
           movedToErrors = None\<rparr>,
          [ClockFn, RenameObject key (transition p sc key)])"
  using assms by (simp add: process_def process_key_unmarked)

theorem rename_failure_is_error_rename_witness:
  "decodeURIComponent (replace_plus (s3_object_key (s3record
      (new_S3EventProcessor (createMockRecord (js ''person-full/data.json''))
         (mockBucket False True) (constant_clock fixedTimestamp)))))
     = Some (js ''person-full/data.json'')
   \<and> findSubfolderConfig
        (new_S3EventProcessor (createMockRecord (js ''person-full/data.json''))
           (mockBucket False True) (constant_clock fixedTimestamp))
        (js ''person-full/data.json'') = Some person_full
   \<and> \<not> isAlreadyProcessed (last (split SLASH (js ''person-full/data.json'')))
   \<and> \<not> renameObject (bucket
        (new_S3EventProcessor (createMockRecord (js ''person-full/data.json''))
           (mockBucket False True) (constant_clock fixedTimestamp)))
        (js ''person-full/data.json'')
        (js ''person-full/2026-02-22T10:30:00.000Z-data.json'')
   \<and> process notify_resolves
        (new_S3EventProcessor (createMockRecord (js ''person-full/data.json''))
           (mockBucket False True) (constant_clock fixedTimestamp))
       = Inr (\<lparr>success = False, action = error_rename,
               reason = Some (js ''Failed to rename object in S3''),
               originalKey = js ''person-full/data.json'', newKey = None,
               subscriberInvoked = None, movedToErrors = None\<rparr>,
              [ClockFn, RenameObject (js ''person-full/data.json'')
                 (js ''person-full/2026-02-22T10:30:00.000Z-data.json'')])"
proof -
  let ?p = "new_S3EventProcessor (createMockRecord (js ''person-full/data.json''))
         (mockBucket False True) (constant_clock fixedTimestamp)"
  let ?key = "js ''person-full/data.json''"
  have dec: "decodeURIComponent (replace_plus (s3_object_key (s3record ?p))) = Some ?key"
    by code_simp
  have found: "findSubfolderConfig ?p ?key = Some person_full"
    by code_simp
  have unmarked: "\<not> isAlreadyProcessed (last (split SLASH ?key))"
    by code_simp
  have new: "transition ?p person_full ?key = js ''person-full/2026-02-22T10:30:00.000Z-data.json''"
    by code_simp
  have failed: "\<not> renameObject (bucket ?p) ?key (transition ?p person_full ?key)"
    by code_simp
  from rename_failure_is_error_rename [OF dec found unmarked failed, of notify_resolves]
    dec found unmarked failed new
  show ?thesis by simp
qed

text \<open>
  Claim C8. For a matched, unmarked key whose rename succeeds and whose notification
  rejects with the error text \<open>e\<close>, \<open>process\<close> calls \<open>moveToErrors\<close> with the
  renamed key, which differs from the original key, and with the path of the matched
  subdirectory; it returns error-invoke with success false, subscriberInvoked false,
  movedToErrors equal to what \<open>moveToErrors\<close> answered, and a reason that ends with
  \<open>e\<close>. The result is a value whatever \<open>moveToErrors\<close> answers.
\<close>

theorem notify_failure_quarantines_renamed_key:
  assumes "decodeURIComponent (replace_plus (s3_object_key (s3record p))) = Some key"
    and "findSubfolderConfig p key = Some sc"
    and "\<not> isAlreadyProcessed (last (split SLASH key))"
    and "renameObject (bucket p) key (transition p sc key)"
    and "Subscriber_notify lambda (subscriberLambdaArn sc) (bucket p) (transition p sc key) = Some e"
  shows "process lambda p =
     Inr (\<lparr>success = False, action = error_invoke,
           reason = Some (js ''Subscriber Lambda invocation failed: '' @ e),
           originalKey = key, newKey = Some (transition p sc key),
           subscriberInvoked = Some False,
           movedToErrors =
             Some (moveToErrors (bucket p) (transition p sc key) (path sc)
                     (js ''Subscriber Lambda invocation failed: '' @ e))\<rparr>,
          [ClockFn, RenameObject key (transition p sc key),
           Notify (subscriberLambdaArn sc) (transition p sc key),
           MoveToErrors (transition p sc key) (path sc)
             (js ''Subscriber Lambda invocation failed: '' @ e)])
     \<and> transition p sc key \<noteq> key"
  using assms transition_differs [of p key sc]
  by (simp add: process_def process_key_unmarked invocation_failed_def)

theorem notify_failure_quarantines_renamed_key_witness:
  "decodeURIComponent (replace_plus (s3_object_key (s3record
      (new_S3EventProcessor (createMockRecord (js ''person-full/data.json''))
         (mockBucket True False) (constant_clock fixedTimestamp)))))
     = Some (js ''person-full/data.json'')
   \<and> findSubfolderConfig
        (new_S3EventProcessor (createMockRecord (js ''person-full/data.json''))
           (mockBucket True False) (constant_clock fixedTimestamp))
        (js ''person-full/data.json'') = Some person_full
   \<and> \<not> isAlreadyProcessed (last (split SLASH (js ''person-full/data.json'')))
   \<and> renameObject (bucket
        (new_S3EventProcessor (createMockRecord (js ''person-full/data.json''))
           (mockBucket True False) (constant_clock fixedTimestamp)))
        (js ''person-full/data.json'')
        (js ''person-full/2026-02-22T10:30:00.000Z-data.json'')
   \<and> Subscriber_notify (mockRejectedValue (js ''Error: Lambda invocation failed''))
        (subscriberLambdaArn person_full)
        (bucket (new_S3EventProcessor (createMockRecord (js ''person-full/data.json''))
           (mockBucket True False) (constant_clock fixedTimestamp)))
        (js ''person-full/2026-02-22T10:30:00.000Z-data.json'')
       = Some (js ''Error: Lambda invocation failed'')
   \<and> process (mockRejectedValue (js ''Error: Lambda invocation failed''))
        (new_S3EventProcessor (createMockRecord (js ''person-full/data.json''))
           (mockBucket True False) (constant_clock fixedTimestamp))
       = Inr (\<lparr>success = False, action = error_invoke,
               reason = Some (js ''Subscriber Lambda invocation failed: Error: Lambda invocation failed''),
               originalKey = js ''person-full/data.json'',
               newKey = Some (js ''person-full/2026-02-22T10:30:00.000Z-data.json''),
               subscriberInvoked = Some False, movedToErrors = Some False\<rparr>,
              [ClockFn,
               RenameObject (js ''person-full/data.json'')
                 (js ''person-full/2026-02-22T10:30:00.000Z-data.json''),
               Notify (subscriberLambdaArn person_full)
                 (js ''person-full/2026-02-22T10:30:00.000Z-data.json''),
               MoveToErrors (js ''person-full/2026-02-22T10:30:00.000Z-data.json'')
                 (js ''person-full'')
                 (js ''Subscriber Lambda invocation failed: Error: Lambda invocation failed'')])"
proof -
  let ?p = "new_S3EventProcessor (createMockRecord (js ''person-full/data.json''))
         (mockBucket True False) (constant_clock fixedTimestamp)"
  let ?key = "js ''person-full/data.json''"
  let ?lambda = "mockRejectedValue (js ''Error: Lambda invocation failed'')"
  have dec: "decodeURIComponent (replace_plus (s3_object_key (s3record ?p))) = Some ?key"
    by code_simp
  have found: "findSubfolderConfig ?p ?key = Some person_full"
    by code_simp
  have unmarked: "\<not> isAlreadyProcessed (last (split SLASH ?key))"
    by code_simp
  have new: "transition ?p person_full ?key = js ''person-full/2026-02-22T10:30:00.000Z-data.json''"
    by code_simp
  have renamed: "renameObject (bucket ?p) ?key (transition ?p person_full ?key)"
    by code_simp
  have rejected: "Subscriber_notify ?lambda (subscriberLambdaArn person_full) (bucket ?p)
      (transition ?p person_full ?key) = Some (js ''Error: Lambda invocation failed'')"
    by code_simp
  have moved: "\<not> moveToErrors (bucket ?p) (transition ?p person_full ?key) (path person_full)
      (js ''Subscriber Lambda invocation failed: '' @ js ''Error: Lambda invocation failed'')"
    by code_simp
  have pth: "path person_full = js ''person-full''"
    by (simp add: person_full_def)
  have msg: "js ''Subscriber Lambda invocation failed: '' @ js ''Error: Lambda invocation failed''
      = js ''Subscriber Lambda invocation failed: Error: Lambda invocation failed''"
    by (simp add: js_def)
  from notify_failure_quarantines_renamed_key [OF dec found unmarked renamed rejected]
    dec found unmarked renamed rejected moved
  show ?thesis
    unfolding new pth msg by simp
qed

text \<open>
  Claim C6. For a key made of the matched path, a slash, a nested sub-path followed by
  a slash when it is not empty, and a filename without a slash, the new key is the
  matched path, a slash, the nested sub-path and a slash when not empty, the first
  reading of the clock, a dash and the filename, which is therefore kept unchanged as
  its suffix; when the filename is not marked this is the key passed to
  \<open>renameObject\<close>. No run of \<open>process\<close> reads the clock more than once.
\<close>

theorem new_key_format:
  "(\<forall>res tr. process lambda p = Inr (res, tr) \<longrightarrow> count_list tr ClockFn \<le> 1)
   \<and> (findSubfolderConfig p key = Some sc
        \<and> key = path sc @ SLASH # (if nested = [] then [] else nested @ [SLASH]) @ f
        \<and> SLASH \<notin> set f
      \<longrightarrow> transition p sc key =
            path sc @ SLASH # (if nested = [] then [] else nested @ [SLASH])
              @ clockFn p 0 @ DASH # f
          \<and> suffix f (transition p sc key)
          \<and> (decodeURIComponent (replace_plus (s3_object_key (s3record p))) = Some key
               \<and> \<not> isAlreadyProcessed f
             \<longrightarrow> (\<exists>res tr. process lambda p =
                    Inr (res, ClockFn # RenameObject key (transition p sc key) # tr)
                    \<and> ClockFn \<notin> set tr)))"
proof (intro conjI allI impI)
  fix res tr
  assume "process lambda p = Inr (res, tr)"
  then obtain k where "process_key lambda p k = (res, tr)"
    by (auto simp: process_def split: option.splits)
  with clock_read_at_most_once [of lambda p k] show "count_list tr ClockFn \<le> 1"
    by simp
next
  assume a: "findSubfolderConfig p key = Some sc
        \<and> key = path sc @ SLASH # (if nested = [] then [] else nested @ [SLASH]) @ f
        \<and> SLASH \<notin> set f"
  let ?rel = "(if nested = [] then [] else nested @ [SLASH]) @ f"
  from a have rel: "substring key (length (path sc) + 1) = ?rel"
    by (metis matched_key same_append_eq list.inject)
  from a decomposed_parts [of f nested]
  have parts: "last (split SLASH ?rel) = f" "join SLASH (butlast (split SLASH ?rel)) = nested"
    by simp_all
  show new: "transition p sc key =
      path sc @ SLASH # (if nested = [] then [] else nested @ [SLASH]) @ clockFn p 0 @ DASH # f"
    unfolding transition_eq rel Let_def parts by simp
  then show "suffix f (transition p sc key)"
    by (simp add: suffix_def)
  assume b: "decodeURIComponent (replace_plus (s3_object_key (s3record p))) = Some key
               \<and> \<not> isAlreadyProcessed f"
  from a have "last (split SLASH key) = last (split SLASH ?rel)"
    using last_split_append [of SLASH "path sc" ?rel] by simp
  with parts b have "\<not> isAlreadyProcessed (last (split SLASH key))" by simp
  from unmarked_calls_rename [OF _ this, of p sc lambda] a b
  show "\<exists>res tr. process lambda p =
      Inr (res, ClockFn # RenameObject key (transition p sc key) # tr) \<and> ClockFn \<notin> set tr"
    by (auto simp: process_def)
qed

theorem new_key_format_witness:
  "findSubfolderConfig
      (new_S3EventProcessor (createMockRecord (js ''person-full/subfolder/data.json''))
         (mockBucket True True) (constant_clock fixedTimestamp))
      (js ''person-full/subfolder/data.json'') = Some person_full
   \<and> js ''person-full/subfolder/data.json''
       = path person_full @ SLASH # (js ''subfolder'' @ [SLASH]) @ js ''data.json''
   \<and> SLASH \<notin> set (js ''data.json'')
   \<and> decodeURIComponent (replace_plus (s3_object_key (s3record
        (new_S3EventProcessor (createMockRecord (js ''person-full/subfolder/data.json''))
           (mockBucket True True) (constant_clock fixedTimestamp)))))
       = Some (js ''person-full/subfolder/data.json'')
   \<and> \<not> isAlreadyProcessed (js ''data.json'')
   \<and> transition
        (new_S3EventProcessor (createMockRecord (js ''person-full/subfolder/data.json''))
           (mockBucket True True) (constant_clock fixedTimestamp))
        person_full (js ''person-full/subfolder/data.json'')
       = js ''person-full/subfolder/2026-02-22T10:30:00.000Z-data.json''
   \<and> suffix (js ''data.json'')
        (js ''person-full/subfolder/2026-02-22T10:30:00.000Z-data.json'')
   \<and> (\<exists>res tr. process notify_resolves
          (new_S3EventProcessor (createMockRecord (js ''person-full/subfolder/data.json''))
             (mockBucket True True) (constant_clock fixedTimestamp))
         = Inr (res, ClockFn # RenameObject (js ''person-full/subfolder/data.json'')
                  (js ''person-full/subfolder/2026-02-22T10:30:00.000Z-data.json'') # tr)
         \<and> ClockFn \<notin> set tr
         \<and> count_list (ClockFn # RenameObject (js ''person-full/subfolder/data.json'')
                  (js ''person-full/subfolder/2026-02-22T10:30:00.000Z-data.json'') # tr)
               ClockFn \<le> 1)"
proof -
  let ?p = "new_S3EventProcessor (createMockRecord (js ''person-full/subfolder/data.json''))
         (mockBucket True True) (constant_clock fixedTimestamp)"
  let ?key = "js ''person-full/subfolder/data.json''"
  let ?new = "js ''person-full/subfolder/2026-02-22T10:30:00.000Z-data.json''"
  have found: "findSubfolderConfig ?p ?key = Some person_full"
    by code_simp
  have shape: "?key = path person_full @ SLASH #
      (if js ''subfolder'' = [] then [] else js ''subfolder'' @ [SLASH]) @ js ''data.json''"
    by code_simp
  have shape': "?key = path person_full @ SLASH # (js ''subfolder'' @ [SLASH]) @ js ''data.json''"
    by code_simp
  have noslash: "SLASH \<notin> set (js ''data.json'')"
    by code_simp
  have dec: "decodeURIComponent (replace_plus (s3_object_key (s3record ?p))) = Some ?key"
    by code_simp
  have unmarked: "\<not> isAlreadyProcessed (js ''data.json'')"
    by code_simp
  have new: "path person_full @ SLASH #
      (if js ''subfolder'' = [] then [] else js ''subfolder'' @ [SLASH])
      @ clockFn ?p 0 @ DASH # js ''data.json'' = ?new"
    by code_simp
  note inst = new_key_format [of notify_resolves ?p ?key person_full "js ''subfolder''" "js ''data.json''"]
  from inst found shape noslash have t: "transition ?p person_full ?key = ?new"
    unfolding new by blast
  from inst found shape noslash have s: "suffix (js ''data.json'') (transition ?p person_full ?key)"
    by blast
  from inst found shape noslash dec unmarked
  obtain res tr where r: "process notify_resolves ?p =
      Inr (res, ClockFn # RenameObject ?key (transition ?p person_full ?key) # tr)"
    "ClockFn \<notin> set tr"
    by blast
  with inst have "count_list (ClockFn # RenameObject ?key (transition ?p person_full ?key) # tr)
      ClockFn \<le> 1"
    by blast
  with r found shape' noslash dec unmarked t s show ?thesis
    by (simp only: t) blast
qed

text \<open>
  Claim C10. For a decoded key that matches a subdirectory and ends with a slash, the
  filename is the empty string, which is not marked, and \<open>process\<close> goes on to call
  \<open>renameObject\<close> with the matched path, a slash, the nested sub-path and a slash
  when there is one, the reading of the clock and a dash, with nothing after it.
\<close>

theorem trailing_slash_key_is_renamed:
  assumes "decodeURIComponent (replace_plus (s3_object_key (s3record p))) = Some key"
    and "findSubfolderConfig p key = Some sc"
    and "last key = SLASH"
  shows "last (split SLASH key) = []
     \<and> \<not> isAlreadyProcessed (last (split SLASH key))
     \<and> transition p sc key =
         path sc @ SLASH #
           (if butlast (substring key (length (path sc) + 1)) = [] then []
            else butlast (substring key (length (path sc) + 1)) @ [SLASH])
           @ clockFn p 0 @ [DASH]
     \<and> (\<exists>res tr. process lambda p =
           Inr (res, ClockFn # RenameObject key (transition p sc key) # tr))"
proof -
  let ?rel = "substring key (length (path sc) + 1)"
  have key: "key = path sc @ SLASH # ?rel"
    by (rule matched_key [OF assms(2)])
  have parts: "last (split SLASH ?rel) = [] \<and> join SLASH (butlast (split SLASH ?rel)) = butlast ?rel"
  proof (cases "?rel = []")
    case True
    then show ?thesis by simp
  next
    case False
    with key assms(3) have "last ?rel = SLASH"
      by (metis last_appendR last_ConsR list.distinct(1))
    from split_trailing_sep [OF False this] show ?thesis by simp
  qed
  have empty: "last (split SLASH key) = []"
    using parts last_split_append [of SLASH "path sc" ?rel] key by simp
  have unmarked: "\<not> isAlreadyProcessed []"
    by code_simp
  have new: "transition p sc key =
         path sc @ SLASH # (if butlast ?rel = [] then [] else butlast ?rel @ [SLASH])
           @ clockFn p 0 @ [DASH]"
    using parts by (simp add: transition_eq Let_def)
  from unmarked_calls_rename [OF assms(2), of lambda] empty unmarked
  obtain res tr where "process_key lambda p key =
      (res, ClockFn # RenameObject key (transition p sc key) # tr)"
    by auto
  with assms(1) have "process lambda p =
      Inr (res, ClockFn # RenameObject key (transition p sc key) # tr)"
    by (simp add: process_def)
  with empty unmarked new show ?thesis by auto
qed

theorem trailing_slash_key_is_renamed_witness:
  "decodeURIComponent (replace_plus (s3_object_key (s3record
      (new_S3EventProcessor (createMockRecord (js ''person-full/inbox/''))
         (mockBucket True True) (constant_clock fixedTimestamp)))))
     = Some (js ''person-full/inbox/'')
   \<and> findSubfolderConfig
        (new_S3EventProcessor (createMockRecord (js ''person-full/inbox/''))
           (mockBucket True True) (constant_clock fixedTimestamp))
        (js ''person-full/inbox/'') = Some person_full
   \<and> last (js ''person-full/inbox/'') = SLASH
   \<and> last (split SLASH (js ''person-full/inbox/'')) = []
   \<and> \<not> isAlreadyProcessed []
   \<and> transition
        (new_S3EventProcessor (createMockRecord (js ''person-full/inbox/''))
           (mockBucket True True) (constant_clock fixedTimestamp))
        person_full (js ''person-full/inbox/'')
       = js ''person-full/inbox/2026-02-22T10:30:00.000Z-''
   \<and> (\<exists>res tr. process notify_resolves
        (new_S3EventProcessor (createMockRecord (js ''person-full/inbox/''))
           (mockBucket True True) (constant_clock fixedTimestamp))
       = Inr (res, ClockFn # RenameObject (js ''person-full/inbox/'')
                (js ''person-full/inbox/2026-02-22T10:30:00.000Z-'') # tr))"
proof -
  let ?p = "new_S3EventProcessor (createMockRecord (js ''person-full/inbox/''))
         (mockBucket True True) (constant_clock fixedTimestamp)"
  let ?key = "js ''person-full/inbox/''"
  have dec: "decodeURIComponent (replace_plus (s3_object_key (s3record ?p))) = Some ?key"
    by code_simp
  have found: "findSubfolderConfig ?p ?key = Some person_full"
    by code_simp
  have slash: "last ?key = SLASH"
    by code_simp
  have new: "path person_full @ SLASH #
      (if butlast (substring ?key (length (path person_full) + 1)) = [] then []
       else butlast (substring ?key (length (path person_full) + 1)) @ [SLASH])
      @ clockFn ?p 0 @ [DASH] = js ''person-full/inbox/2026-02-22T10:30:00.000Z-''"
    by code_simp
  note inst = trailing_slash_key_is_renamed [OF dec found slash, of notify_resolves]
  from inst have e: "last (split SLASH ?key) = []"
    by blast
  from inst have u: "\<not> isAlreadyProcessed (last (split SLASH ?key))"
    by blast
  from inst have t: "transition ?p person_full ?key = js ''person-full/inbox/2026-02-22T10:30:00.000Z-''"
    unfolding new by blast
  from inst have ex: "\<exists>res tr. process notify_resolves ?p =
      Inr (res, ClockFn # RenameObject ?key (transition ?p person_full ?key) # tr)"
    by blast
  from dec found slash e u [unfolded e] t ex [unfolded t] show ?thesis
    by blast
qed

text \<open>
  Claim C9. Whenever \<open>process\<close> returns a result, the key of the record, with every
  plus sign turned into a space and then percent-decoded, is the \<open>originalKey\<close> of
  the result, whatever the action; the result and the calls are those of the steps
  after line 54 run on that decoded key, every rename is a rename of the decoded key,
  and a processor with the same bucket and clock whose record decodes to the same key
  returns the same.
\<close>

theorem process_works_on_decoded_key:
  assumes "process lambda p = Inr (res, tr)"
  shows "decodeURIComponent (replace_plus (s3_object_key (s3record p))) = Some (originalKey res)
     \<and> process_key lambda p (originalKey res) = (res, tr)
     \<and> (\<forall>k nk. RenameObject k nk \<in> set tr \<longrightarrow> k = originalKey res)
     \<and> (\<forall>q. bucket q = bucket p \<and> clockFn q = clockFn p
            \<and> decodeURIComponent (replace_plus (s3_object_key (s3record q)))
                = Some (originalKey res)
          \<longrightarrow> process lambda q = Inr (res, tr))"
proof -
  from assms obtain key
    where dec: "decodeURIComponent (replace_plus (s3_object_key (s3record p))) = Some key"
      and run: "process_key lambda p key = (res, tr)"
    by (auto simp: process_def split: option.splits)
  from run process_key_originalKey [of lambda p key] have key: "originalKey res = key"
    by simp
  from run process_key_renames_key [of _ _ lambda p key]
  have "\<forall>k nk. RenameObject k nk \<in> set tr \<longrightarrow> k = key"
    by simp
  moreover have "process lambda q = Inr (res, tr)"
    if "bucket q = bucket p \<and> clockFn q = clockFn p
        \<and> decodeURIComponent (replace_plus (s3_object_key (s3record q))) = Some key" for q
    using that run process_key_same_bucket_and_clock [of q p lambda key]
    by (simp add: process_def)
  ultimately show ?thesis
    using dec run key by blast
qed

theorem process_works_on_decoded_key_witness:
  "process notify_resolves
      (new_S3EventProcessor (createMockRecord (js ''person-full/file%20with+plus%2Bsign.json''))
         (mockBucket True True) (constant_clock fixedTimestamp))
     = Inr (\<lparr>success = True, action = renamed, reason = None,
             originalKey = js ''person-full/file with plus+sign.json'',
             newKey = Some (js ''person-full/2026-02-22T10:30:00.000Z-file with plus+sign.json''),
             subscriberInvoked = Some True, movedToErrors = None\<rparr>,
            [ClockFn,
             RenameObject (js ''person-full/file with plus+sign.json'')
               (js ''person-full/2026-02-22T10:30:00.000Z-file with plus+sign.json''),
             Notify (subscriberLambdaArn person_full)
               (js ''person-full/2026-02-22T10:30:00.000Z-file with plus+sign.json'')])
   \<and> decodeURIComponent (replace_plus (s3_object_key (s3record
        (new_S3EventProcessor (createMockRecord (js ''person-full/file%20with+plus%2Bsign.json''))
           (mockBucket True True) (constant_clock fixedTimestamp)))))
       = Some (js ''person-full/file with plus+sign.json'')
   \<and> decodeURIComponent (replace_plus (s3_object_key (s3record
        (new_S3EventProcessor (createMockRecord (js ''person-full/file+with%20plus%2bsign.json''))
           (mockBucket True True) (constant_clock fixedTimestamp)))))
       = Some (js ''person-full/file with plus+sign.json'')
   \<and> process notify_resolves
      (new_S3EventProcessor (createMockRecord (js ''person-full/file+with%20plus%2bsign.json''))
         (mockBucket True True) (constant_clock fixedTimestamp))
     = Inr (\<lparr>success = True, action = renamed, reason = None,
             originalKey = js ''person-full/file with plus+sign.json'',
             newKey = Some (js ''person-full/2026-02-22T10:30:00.000Z-file with plus+sign.json''),
             subscriberInvoked = Some True, movedToErrors = None\<rparr>,
            [ClockFn,
             RenameObject (js ''person-full/file with plus+sign.json'')
               (js ''person-full/2026-02-22T10:30:00.000Z-file with plus+sign.json''),
             Notify (subscriberLambdaArn person_full)
               (js ''person-full/2026-02-22T10:30:00.000Z-file with plus+sign.json'')])"
proof -
  let ?p = "new_S3EventProcessor (createMockRecord (js ''person-full/file%20with+plus%2Bsign.json''))
         (mockBucket True True) (constant_clock fixedTimestamp)"
  let ?q = "new_S3EventProcessor (createMockRecord (js ''person-full/file+with%20plus%2bsign.json''))
         (mockBucket True True) (constant_clock fixedTimestamp)"
  let ?res = "\<lparr>success = True, action = renamed, reason = None,
             originalKey = js ''person-full/file with plus+sign.json'',
             newKey = Some (js ''person-full/2026-02-22T10:30:00.000Z-file with plus+sign.json''),
             subscriberInvoked = Some True, movedToErrors = None\<rparr>"
  let ?tr = "[ClockFn,
             RenameObject (js ''person-full/file with plus+sign.json'')
               (js ''person-full/2026-02-22T10:30:00.000Z-file with plus+sign.json''),
             Notify (subscriberLambdaArn person_full)
               (js ''person-full/2026-02-22T10:30:00.000Z-file with plus+sign.json'')]"
  have run: "process notify_resolves ?p = Inr (?res, ?tr)"
    by code_simp
  have same: "bucket ?q = bucket ?p" "clockFn ?q = clockFn ?p"
    by (simp_all add: new_S3EventProcessor_def)
  have dec2: "decodeURIComponent (replace_plus (s3_object_key (s3record ?q)))
      = Some (js ''person-full/file with plus+sign.json'')"
    by code_simp
  note inst = process_works_on_decoded_key [OF run]
  from inst have "decodeURIComponent (replace_plus (s3_object_key (s3record ?p)))
      = Some (originalKey ?res)"
    by blast
  then have dec: "decodeURIComponent (replace_plus (s3_object_key (s3record ?p)))
      = Some (js ''person-full/file with plus+sign.json'')"
    by simp
  from dec2 have dec2': "decodeURIComponent (replace_plus (s3_object_key (s3record ?q)))
      = Some (originalKey ?res)"
    by simp
  from inst same dec2' have "process notify_resolves ?q = Inr (?res, ?tr)"
    by blast
  with run dec dec2 show ?thesis
    by blast
qed


text \<open>
  Claim C1, as amended. When the first reading of the clock has the format of
  \<open>toISOString\<close> (\<open>YYYY-MM-DDTHH:mm:ss.sssZ\<close>), a decoded key that matches a
  subdirectory and whose filename is not marked is renamed to a key whose filename
  segment the recursion guard marks; any later run of \<open>process\<close> with the same
  configuration on a record that decodes to this new key returns
  skipped-already-processed with success true and makes no call: no rename, no
  notification, no move to the errors folder.
\<close>

theorem renamed_key_is_skipped_when_clock_conforms:
  assumes "decodeURIComponent (replace_plus (s3_object_key (s3record p))) = Some key"
    and "findSubfolderConfig p key = Some sc"
    and "\<not> isAlreadyProcessed (last (split SLASH key))"
    and "is_iso_timestamp (clockFn p 0)"
  shows "(\<exists>res tr. process lambda p =
            Inr (res, ClockFn # RenameObject key (transition p sc key) # tr))
     \<and> isAlreadyProcessed (last (split SLASH (transition p sc key)))
     \<and> (\<forall>q lambda'.
           getConfig (bucket q) = getConfig (bucket p)
           \<and> decodeURIComponent (replace_plus (s3_object_key (s3record q)))
               = Some (transition p sc key)
         \<longrightarrow> process lambda' q =
               Inr (\<lparr>success = True, action = skipped_already_processed,
                     reason = Some (js ''File already has timestamp prefix indicating previous processing''),
                     originalKey = transition p sc key, newKey = None,
                     subscriberInvoked = None, movedToErrors = None\<rparr>, []))"
proof (intro conjI allI impI)
  from unmarked_calls_rename [OF assms(2,3), of lambda] assms(1)
  show "\<exists>res tr. process lambda p =
      Inr (res, ClockFn # RenameObject key (transition p sc key) # tr)"
    by (auto simp: process_def)
  from assms(4) have "SLASH \<notin> set (clockFn p 0)"
    by (rule iso_timestamp_no_slash)
  then have "last (split SLASH (transition p sc key)) =
      clockFn p 0 @ DASH # last (split SLASH (substring key (length (path sc) + 1)))"
    by (rule last_split_transition)
  with assms(4) show marked: "isAlreadyProcessed (last (split SLASH (transition p sc key)))"
    by (simp add: iso_timestamp_marks)
  fix q :: S3EventProcessor and lambda' :: LambdaService
  assume q: "getConfig (bucket q) = getConfig (bucket p)
      \<and> decodeURIComponent (replace_plus (s3_object_key (s3record q)))
          = Some (transition p sc key)"
  with matched_member [OF assms(2)]
  have "sc \<in> set (subdirectories (getConfig (bucket q)))" by simp
  from matched_not_None [OF this transition_prefix]
  obtain sc' where "findSubfolderConfig q (transition p sc key) = Some sc'"
    by blast
  from process_key_marked [OF this marked] q
  show "process lambda' q =
      Inr (\<lparr>success = True, action = skipped_already_processed,
            reason = Some (js ''File already has timestamp prefix indicating previous processing''),
            originalKey = transition p sc key, newKey = None,
            subscriberInvoked = None, movedToErrors = None\<rparr>, [])"
    by (simp add: process_def)
qed

theorem renamed_key_is_skipped_when_clock_conforms_witness:
  "decodeURIComponent (replace_plus (s3_object_key (s3record
      (new_S3EventProcessor (createMockRecord (js ''person-full/data.json''))
         (mockBucket True True) (constant_clock fixedTimestamp)))))
     = Some (js ''person-full/data.json'')
   \<and> findSubfolderConfig
        (new_S3EventProcessor (createMockRecord (js ''person-full/data.json''))
           (mockBucket True True) (constant_clock fixedTimestamp))
        (js ''person-full/data.json'') = Some person_full
   \<and> \<not> isAlreadyProcessed (last (split SLASH (js ''person-full/data.json'')))
   \<and> is_iso_timestamp (clockFn
        (new_S3EventProcessor (createMockRecord (js ''person-full/data.json''))
           (mockBucket True True) (constant_clock fixedTimestamp)) 0)
   \<and> (\<exists>res tr. process notify_resolves
          (new_S3EventProcessor (createMockRecord (js ''person-full/data.json''))
             (mockBucket True True) (constant_clock fixedTimestamp))
         = Inr (res, ClockFn # RenameObject (js ''person-full/data.json'')
                  (js ''person-full/2026-02-22T10:30:00.000Z-data.json'') # tr))
   \<and> isAlreadyProcessed (last (split SLASH (js ''person-full/2026-02-22T10:30:00.000Z-data.json'')))
   \<and> getConfig (bucket
        (new_S3EventProcessor
           (createMockRecord (js ''person-full/2026-02-22T10%3A30%3A00.000Z-data.json''))
           (mockBucket True True) (constant_clock fixedTimestamp)))
       = getConfig (bucket
        (new_S3EventProcessor (createMockRecord (js ''person-full/data.json''))
           (mockBucket True True) (constant_clock fixedTimestamp)))
   \<and> decodeURIComponent (replace_plus (s3_object_key (s3record
        (new_S3EventProcessor
           (createMockRecord (js ''person-full/2026-02-22T10%3A30%3A00.000Z-data.json''))
           (mockBucket True True) (constant_clock fixedTimestamp)))))
       = Some (js ''person-full/2026-02-22T10:30:00.000Z-data.json'')
   \<and> process notify_resolves
        (new_S3EventProcessor
           (createMockRecord (js ''person-full/2026-02-22T10%3A30%3A00.000Z-data.json''))
           (mockBucket True True) (constant_clock fixedTimestamp))
       = Inr (\<lparr>success = True, action = skipped_already_processed,
               reason = Some (js ''File already has timestamp prefix indicating previous processing''),
               originalKey = js ''person-full/2026-02-22T10:30:00.000Z-data.json'',
               newKey = None, subscriberInvoked = None, movedToErrors = None\<rparr>, [])"
proof -
  let ?p = "new_S3EventProcessor (createMockRecord (js ''person-full/data.json''))
         (mockBucket True True) (constant_clock fixedTimestamp)"
  let ?q = "new_S3EventProcessor
         (createMockRecord (js ''person-full/2026-02-22T10%3A30%3A00.000Z-data.json''))
         (mockBucket True True) (constant_clock fixedTimestamp)"
  let ?key = "js ''person-full/data.json''"
  let ?new = "js ''person-full/2026-02-22T10:30:00.000Z-data.json''"
  have dec: "decodeURIComponent (replace_plus (s3_object_key (s3record ?p))) = Some ?key"
    by code_simp
  have found: "findSubfolderConfig ?p ?key = Some person_full"
    by code_simp
  have unmarked: "\<not> isAlreadyProcessed (last (split SLASH ?key))"
    by code_simp
  have iso: "is_iso_timestamp (clockFn ?p 0)"
    by code_simp
  have new: "transition ?p person_full ?key = ?new"
    by code_simp
  have same: "getConfig (bucket ?q) = getConfig (bucket ?p)"
    by (simp add: new_S3EventProcessor_def mockBucket_def)
  have dec2: "decodeURIComponent (replace_plus (s3_object_key (s3record ?q))) = Some ?new"
    by code_simp
  note inst = renamed_key_is_skipped_when_clock_conforms
    [OF dec found unmarked iso, of notify_resolves, unfolded new]
  from inst have first: "\<exists>res tr. process notify_resolves ?p =
      Inr (res, ClockFn # RenameObject ?key ?new # tr)"
    by blast
  from inst have marked: "isAlreadyProcessed (last (split SLASH ?new))"
    by blast
  from inst same dec2 have second: "process notify_resolves ?q =
      Inr (\<lparr>success = True, action = skipped_already_processed,
            reason = Some (js ''File already has timestamp prefix indicating previous processing''),
            originalKey = ?new, newKey = None, subscriberInvoked = None,
            movedToErrors = None\<rparr>, [])"
    by blast
  from dec found unmarked iso first marked same dec2 second show ?thesis
    by blast
qed

text \<open>
  The claim as stated, for every clock, fails: \<open>clockFn\<close> is any function that
  returns a string. With a clock that answers the milliseconds since the epoch as text,
  \<open>person-full/data.json\<close> is renamed to \<open>person-full/1771756200000-data.json\<close>,
  whose filename is not marked, and a second run renames that key again.
\<close>

theorem nonconforming_clock_counterexample:
  "findSubfolderConfig
      (new_S3EventProcessor (createMockRecord (js ''person-full/data.json''))
         (mockBucket True True) (constant_clock (js ''1771756200000'')))
      (js ''person-full/data.json'') = Some person_full
   \<and> \<not> isAlreadyProcessed (last (split SLASH (js ''person-full/data.json'')))
   \<and> process notify_resolves
        (new_S3EventProcessor (createMockRecord (js ''person-full/data.json''))
           (mockBucket True True) (constant_clock (js ''1771756200000'')))
       = Inr (\<lparr>success = True, action = renamed, reason = None,
               originalKey = js ''person-full/data.json'',
               newKey = Some (js ''person-full/1771756200000-data.json''),
               subscriberInvoked = Some True, movedToErrors = None\<rparr>,
              [ClockFn,
               RenameObject (js ''person-full/data.json'')
                 (js ''person-full/1771756200000-data.json''),
               Notify (subscriberLambdaArn person_full)
                 (js ''person-full/1771756200000-data.json'')])
   \<and> \<not> isAlreadyProcessed (last (split SLASH (js ''person-full/1771756200000-data.json'')))
   \<and> process notify_resolves
        (new_S3EventProcessor (createMockRecord (js ''person-full/1771756200000-data.json''))
           (mockBucket True True) (constant_clock (js ''1771756200000'')))
       = Inr (\<lparr>success = True, action = renamed, reason = None,
               originalKey = js ''person-full/1771756200000-data.json'',
               newKey = Some (js ''person-full/1771756200000-1771756200000-data.json''),
               subscriberInvoked = Some True, movedToErrors = None\<rparr>,
              [ClockFn,
               RenameObject (js ''person-full/1771756200000-data.json'')
                 (js ''person-full/1771756200000-1771756200000-data.json''),
               Notify (subscriberLambdaArn person_full)
                 (js ''person-full/1771756200000-1771756200000-data.json'')])"
  by code_simp

text \<open>
  Claim C5, as amended. \<open>isAlreadyProcessed\<close> holds of a filename exactly when it
  begins, at position 0, with four digits, a dash, two digits, a dash, two digits, T,
  two digits, a colon, two digits, a colon, two digits, a period, three digits, Z and
  a dash. For a decoded key that matches a subdirectory only its last segment is
  inspected: when that segment is marked \<open>process\<close> returns
  skipped-already-processed with success true and makes no call, and when it is not
  marked, whatever the directory names look like, \<open>process\<close> goes on to the rename
  and the action is not skipped-already-processed.
\<close>

theorem guard_inspects_only_the_filename:
  "(isAlreadyProcessed f \<longleftrightarrow> isMarked_spec f)
   \<and> (decodeURIComponent (replace_plus (s3_object_key (s3record p))) = Some key
        \<and> findSubfolderConfig p key = Some sc
      \<longrightarrow> (isAlreadyProcessed (last (split SLASH key))
             \<longrightarrow> process lambda p =
                   Inr (\<lparr>success = True, action = skipped_already_processed,
                         reason = Some (js ''File already has timestamp prefix indicating previous processing''),
                         originalKey = key, newKey = None, subscriberInvoked = None,
                         movedToErrors = None\<rparr>, []))
          \<and> (\<not> isAlreadyProcessed (last (split SLASH key))
             \<longrightarrow> (\<exists>res tr. process lambda p =
                    Inr (res, ClockFn # RenameObject key (transition p sc key) # tr)
                    \<and> action res \<noteq> skipped_already_processed)))"
proof (intro conjI impI)
  show "isAlreadyProcessed f \<longleftrightarrow> isMarked_spec f"
    by (rule isAlreadyProcessed_spec)
next
  assume a: "decodeURIComponent (replace_plus (s3_object_key (s3record p))) = Some key
        \<and> findSubfolderConfig p key = Some sc"
    and m: "isAlreadyProcessed (last (split SLASH key))"
  then show "process lambda p =
      Inr (\<lparr>success = True, action = skipped_already_processed,
            reason = Some (js ''File already has timestamp prefix indicating previous processing''),
            originalKey = key, newKey = None, subscriberInvoked = None,
            movedToErrors = None\<rparr>, [])"
    by (simp add: process_def process_key_marked)
next
  assume a: "decodeURIComponent (replace_plus (s3_object_key (s3record p))) = Some key
        \<and> findSubfolderConfig p key = Some sc"
    and u: "\<not> isAlreadyProcessed (last (split SLASH key))"
  from a u unmarked_calls_rename [of p key sc lambda]
  obtain res tr where r: "process_key lambda p key =
      (res, ClockFn # RenameObject key (transition p sc key) # tr)"
    by blast
  with a u unmarked_action [of p key sc lambda]
  have "action res \<noteq> skipped_already_processed"
    by simp
  with a r show "\<exists>res tr. process lambda p =
      Inr (res, ClockFn # RenameObject key (transition p sc key) # tr)
      \<and> action res \<noteq> skipped_already_processed"
    by (simp add: process_def)
qed

theorem guard_inspects_only_the_filename_witness:
  "isMarked_spec (js ''2026-02-22T10:30:00.000Z-data.json'')
   \<and> \<not> isMarked_spec (js ''newfile.json'')
   \<and> decodeURIComponent (replace_plus (s3_object_key (s3record
        (new_S3EventProcessor
           (createMockRecord (js ''person-full/2026-02-22T10:30:00.000Z-data.json''))
           (mockBucket True True) (constant_clock fixedTimestamp)))))
       = Some (js ''person-full/2026-02-22T10:30:00.000Z-data.json'')
   \<and> findSubfolderConfig
        (new_S3EventProcessor
           (createMockRecord (js ''person-full/2026-02-22T10:30:00.000Z-data.json''))
           (mockBucket True True) (constant_clock fixedTimestamp))
        (js ''person-full/2026-02-22T10:30:00.000Z-data.json'') = Some person_full
   \<and> isAlreadyProcessed (last (split SLASH (js ''person-full/2026-02-22T10:30:00.000Z-data.json'')))
   \<and> process notify_resolves
        (new_S3EventProcessor
           (createMockRecord (js ''person-full/2026-02-22T10:30:00.000Z-data.json''))
           (mockBucket True True) (constant_clock fixedTimestamp))
       = Inr (\<lparr>success = True, action = skipped_already_processed,
               reason = Some (js ''File already has timestamp prefix indicating previous processing''),
               originalKey = js ''person-full/2026-02-22T10:30:00.000Z-data.json'',
               newKey = None, subscriberInvoked = None, movedToErrors = None\<rparr>, [])
   \<and> decodeURIComponent (replace_plus (s3_object_key (s3record
        (new_S3EventProcessor
           (createMockRecord (js ''2026-02-22T10:30:00.000Z-subfolder/newfile.json''))
           (bucket_of [person_full, person_delta,
              subdirectory_at (js ''2026-02-22T10:30:00.000Z-subfolder'')] True True)
           (constant_clock fixedTimestamp)))))
       = Some (js ''2026-02-22T10:30:00.000Z-subfolder/newfile.json'')
   \<and> findSubfolderConfig
        (new_S3EventProcessor
           (createMockRecord (js ''2026-02-22T10:30:00.000Z-subfolder/newfile.json''))
           (bucket_of [person_full, person_delta,
              subdirectory_at (js ''2026-02-22T10:30:00.000Z-subfolder'')] True True)
           (constant_clock fixedTimestamp))
        (js ''2026-02-22T10:30:00.000Z-subfolder/newfile.json'')
       = Some (subdirectory_at (js ''2026-02-22T10:30:00.000Z-subfolder''))
   \<and> \<not> isAlreadyProcessed
        (last (split SLASH (js ''2026-02-22T10:30:00.000Z-subfolder/newfile.json'')))
   \<and> (\<exists>res tr. process notify_resolves
          (new_S3EventProcessor
             (createMockRecord (js ''2026-02-22T10:30:00.000Z-subfolder/newfile.json''))
             (bucket_of [person_full, person_delta,
                subdirectory_at (js ''2026-02-22T10:30:00.000Z-subfolder'')] True True)
             (constant_clock fixedTimestamp))
         = Inr (res, ClockFn #
               RenameObject (js ''2026-02-22T10:30:00.000Z-subfolder/newfile.json'')
                 (js ''2026-02-22T10:30:00.000Z-subfolder/2026-02-22T10:30:00.000Z-newfile.json'')
               # tr)
         \<and> action res \<noteq> skipped_already_processed)"
proof -
  let ?p = "new_S3EventProcessor
         (createMockRecord (js ''person-full/2026-02-22T10:30:00.000Z-data.json''))
         (mockBucket True True) (constant_clock fixedTimestamp)"
  let ?key = "js ''person-full/2026-02-22T10:30:00.000Z-data.json''"
  let ?q = "new_S3EventProcessor
         (createMockRecord (js ''2026-02-22T10:30:00.000Z-subfolder/newfile.json''))
         (bucket_of [person_full, person_delta,
            subdirectory_at (js ''2026-02-22T10:30:00.000Z-subfolder'')] True True)
         (constant_clock fixedTimestamp)"
  let ?dir = "subdirectory_at (js ''2026-02-22T10:30:00.000Z-subfolder'')"
  let ?k = "js ''2026-02-22T10:30:00.000Z-subfolder/newfile.json''"
  have m1: "isAlreadyProcessed (js ''2026-02-22T10:30:00.000Z-data.json'')"
    by code_simp
  have m2: "\<not> isAlreadyProcessed (js ''newfile.json'')"
    by code_simp
  have dec: "decodeURIComponent (replace_plus (s3_object_key (s3record ?p))) = Some ?key"
    by code_simp
  have found: "findSubfolderConfig ?p ?key = Some person_full"
    by code_simp
  have marked: "isAlreadyProcessed (last (split SLASH ?key))"
    by code_simp
  have dec2: "decodeURIComponent (replace_plus (s3_object_key (s3record ?q))) = Some ?k"
    by code_simp
  have found2: "findSubfolderConfig ?q ?k = Some ?dir"
    by code_simp
  have unmarked: "\<not> isAlreadyProcessed (last (split SLASH ?k))"
    by code_simp
  have new: "transition ?q ?dir ?k =
      js ''2026-02-22T10:30:00.000Z-subfolder/2026-02-22T10:30:00.000Z-newfile.json''"
    by code_simp
  from guard_inspects_only_the_filename [of "js ''2026-02-22T10:30:00.000Z-data.json''"] m1
  have s1: "isMarked_spec (js ''2026-02-22T10:30:00.000Z-data.json'')"
    by blast
  from guard_inspects_only_the_filename [of "js ''newfile.json''"] m2
  have s2: "\<not> isMarked_spec (js ''newfile.json'')"
    by blast
  from guard_inspects_only_the_filename [of _ ?p ?key person_full notify_resolves]
    dec found marked
  have skip: "process notify_resolves ?p =
      Inr (\<lparr>success = True, action = skipped_already_processed,
            reason = Some (js ''File already has timestamp prefix indicating previous processing''),
            originalKey = ?key, newKey = None, subscriberInvoked = None,
            movedToErrors = None\<rparr>, [])"
    by blast
  from guard_inspects_only_the_filename [of _ ?q ?k ?dir notify_resolves]
    dec2 found2 unmarked
  have go: "\<exists>res tr. process notify_resolves ?q =
      Inr (res, ClockFn # RenameObject ?k (transition ?q ?dir ?k) # tr)
      \<and> action res \<noteq> skipped_already_processed"
    by blast
  from s1 s2 dec found marked skip dec2 found2 unmarked go [unfolded new] show ?thesis
    by blast
qed

text \<open>
  The claim as stated, for every marked filename, fails: the subdirectories are
  matched before the guard runs, so a marked filename under a path that is not
  configured ends in skipped-no-match.
\<close>

theorem marked_filename_outside_subdirectories_counterexample:
  "isAlreadyProcessed
      (last (split SLASH (js ''unconfigured-folder/2026-02-22T10:30:00.000Z-data.json'')))
   \<and> process notify_resolves
        (new_S3EventProcessor
           (createMockRecord (js ''unconfigured-folder/2026-02-22T10:30:00.000Z-data.json''))
           (mockBucket True True) (constant_clock fixedTimestamp))
       = Inr (\<lparr>success = True, action = skipped_no_match,
               reason = Some (js ''File does not match any configured subdirectory''),
               originalKey = js ''unconfigured-folder/2026-02-22T10:30:00.000Z-data.json'',
               newKey = None, subscriberInvoked = None, movedToErrors = None\<rparr>, [])"
  by code_simp




end
